theory Spec2Isabelle
  imports Complex_Main "HOL-Library.List_Lexorder" "HOL-Library.Char_ord"
begin

section \<open>Values of the host language\<close>

text \<open>
  A snapshot is a Python \<open>dict[str, Any]\<close> as \<open>json.load\<close> produces it. A dict is an
  association list in insertion order (keys are distinct in a Python dict; a lookup
  reads the first binding). Floating-point numbers are only carried, never computed
  with, and stand as reals.
\<close>

datatype json =
    JNull
  | JBool bool
  | JInt int
  | JFloat real
  | JStr string
  | JList "json list"
  | JDict "(string \<times> json) list"

datatype exc = TypeError | ValueError | AttributeError

section \<open>models.py\<close>

definition MILLIS_PER_DAY :: int where
  "MILLIS_PER_DAY = 24 * 60 * 60 * 1000"

datatype PartyRole = LEADER | OFFICER | MEMBER | RECRUIT

fun role_value :: "PartyRole \<Rightarrow> string" where
  "role_value LEADER = ''leader''"
| "role_value OFFICER = ''officer''"
| "role_value MEMBER = ''member''"
| "role_value RECRUIT = ''recruit''"

text \<open>\<open>LocationData\<close>; the coordinates \<open>x, y, z\<close> are the fields \<open>pos_x, pos_y, pos_z\<close>.\<close>

record LocationData =
  level :: string
  dimension :: string
  pos_x :: real
  pos_y :: real
  pos_z :: real
  pitch :: real
  yaw :: real

text \<open>
  \<open>Party\<close>. The type \<open>'u\<close> is \<open>uuid.UUID\<close>. Sets are sets, dicts are maps (equality of
  Python dicts ignores insertion order). The field \<open>id\<close> is \<open>party_id\<close>. The annotation
  \<open>name: str | None\<close> is not enforced at run time and \<open>from_dict\<close> stores any truthy
  value of the snapshot, so \<open>name\<close> holds a value of the host language, \<open>JNull\<close> for
  \<open>None\<close>.
\<close>

record 'u party =
  party_id :: 'u
  leader :: 'u
  members :: "'u set"
  invites :: "'u \<rightharpoonup> int"
  join_requests :: "'u \<rightharpoonup> int"
  home :: "LocationData option"
  created_at :: int
  name :: json
  is_public :: bool
  roles :: "'u \<rightharpoonup> PartyRole"
  banned_players :: "'u set"
  total_play_time_ms :: int
  total_kills :: int
  total_deaths :: int
  color :: string
  icon :: string
  allies :: "'u set"
  last_daily_reward :: "'u \<rightharpoonup> int"
  consecutive_days :: int
  last_reward_date :: int
  achievements :: "string set"
  last_seen :: "'u \<rightharpoonup> int"

text \<open>The dataclass defaults; \<open>new_id\<close> is the result of \<open>uuid4()\<close>, \<open>now\<close> of \<open>now_ms()\<close>.\<close>

definition default_color :: string where
  "default_color = [CHR 0xA7, CHR ''6'']"

definition new_party :: "'u \<Rightarrow> 'u \<Rightarrow> int \<Rightarrow> 'u party" where
  "new_party new_id leader_id now =
     \<lparr> party_id = new_id, leader = leader_id, members = {}, invites = Map.empty,
       join_requests = Map.empty, home = None, created_at = now, name = JNull,
       is_public = True, roles = Map.empty, banned_players = {},
       total_play_time_ms = 0, total_kills = 0, total_deaths = 0,
       color = default_color, icon = ''*'', allies = {},
       last_daily_reward = Map.empty, consecutive_days = 0, last_reward_date = 0,
       achievements = {}, last_seen = Map.empty \<rparr>"

definition create :: "'u \<Rightarrow> 'u \<Rightarrow> int \<Rightarrow> 'u party" where
  "create new_id leader_id now =
     (let p = new_party new_id leader_id now;
          p = p\<lparr>members := insert leader_id (members p)\<rparr>
      in p\<lparr>roles := (roles p)(leader_id \<mapsto> LEADER)\<rparr>)"

definition is_member :: "'u party \<Rightarrow> 'u \<Rightarrow> bool" where
  "is_member p player_id = (player_id \<in> members p)"

definition is_leader :: "'u party \<Rightarrow> 'u \<Rightarrow> bool" where
  "is_leader p player_id = (leader p = player_id)"

definition get_role :: "'u party \<Rightarrow> 'u \<Rightarrow> PartyRole" where
  "get_role p player_id = (case roles p player_id of None \<Rightarrow> MEMBER | Some r \<Rightarrow> r)"

definition set_role :: "'u party \<Rightarrow> 'u \<Rightarrow> PartyRole \<Rightarrow> 'u party" where
  "set_role p player_id r =
     (if player_id = leader p then p\<lparr>roles := (roles p)(player_id \<mapsto> LEADER)\<rparr>
      else if player_id \<in> members p then p\<lparr>roles := (roles p)(player_id \<mapsto> r)\<rparr>
      else p)"

definition transfer_leadership :: "'u party \<Rightarrow> 'u \<Rightarrow> bool \<times> 'u party" where
  "transfer_leadership p new_leader_id =
     (if new_leader_id \<notin> members p then (False, p)
      else
        let p1 = (if leader p \<noteq> new_leader_id
                  then p\<lparr>roles := (roles p)(leader p \<mapsto> OFFICER), leader := new_leader_id\<rparr>
                  else p)
        in (True, p1\<lparr>roles := (roles p1)(leader p1 \<mapsto> LEADER)\<rparr>))"

definition add_member :: "'u party \<Rightarrow> 'u \<Rightarrow> 'u party" where
  "add_member p player_id =
     p\<lparr>members := insert player_id (members p),
       invites := (invites p)(player_id := None),
       join_requests := (join_requests p)(player_id := None),
       roles := (case roles p player_id of
                   None \<Rightarrow> (roles p)(player_id \<mapsto> MEMBER)
                 | Some r \<Rightarrow> roles p)\<rparr>"

definition remove_member :: "'u party \<Rightarrow> 'u \<Rightarrow> 'u party" where
  "remove_member p player_id =
     p\<lparr>members := members p - {player_id},
       invites := (invites p)(player_id := None),
       join_requests := (join_requests p)(player_id := None),
       roles := (roles p)(player_id := None),
       last_daily_reward := (last_daily_reward p)(player_id := None),
       last_seen := (last_seen p)(player_id := None)\<rparr>"

text \<open>\<open>Party.invite_player\<close> (the registry has an \<open>invite_player\<close> of its own).\<close>

definition party_invite_player :: "'u party \<Rightarrow> 'u \<Rightarrow> int \<Rightarrow> 'u party" where
  "party_invite_player p player_id now = p\<lparr>invites := (invites p)(player_id \<mapsto> now)\<rparr>"

definition has_invite :: "'u party \<Rightarrow> 'u \<Rightarrow> bool" where
  "has_invite p player_id = (invites p player_id \<noteq> None)"

definition remove_invite :: "'u party \<Rightarrow> 'u \<Rightarrow> 'u party" where
  "remove_invite p player_id = p\<lparr>invites := (invites p)(player_id := None)\<rparr>"

text \<open>The loop over \<open>list(self.invites.items())\<close>: every entry older than the cutoff goes.\<close>

definition sweep :: "('u \<rightharpoonup> int) \<Rightarrow> int \<Rightarrow> ('u \<rightharpoonup> int)" where
  "sweep m cutoff =
     (\<lambda>k. case m k of None \<Rightarrow> None
               | Some sent_at \<Rightarrow> if sent_at < cutoff then None else Some sent_at)"

definition swept :: "('u \<rightharpoonup> int) \<Rightarrow> int \<Rightarrow> 'u set" where
  "swept m cutoff = {k. case m k of None \<Rightarrow> False | Some sent_at \<Rightarrow> sent_at < cutoff}"

definition clean_expired_invites :: "'u party \<Rightarrow> int \<Rightarrow> int \<Rightarrow> 'u set \<times> 'u party" where
  "clean_expired_invites p expiration_ms now =
     (let cutoff = now - expiration_ms
      in (swept (invites p) cutoff, p\<lparr>invites := sweep (invites p) cutoff\<rparr>))"

definition add_join_request :: "'u party \<Rightarrow> 'u \<Rightarrow> int \<Rightarrow> 'u party" where
  "add_join_request p player_id now =
     p\<lparr>join_requests := (join_requests p)(player_id \<mapsto> now)\<rparr>"

definition has_join_request :: "'u party \<Rightarrow> 'u \<Rightarrow> bool" where
  "has_join_request p player_id = (join_requests p player_id \<noteq> None)"

definition remove_join_request :: "'u party \<Rightarrow> 'u \<Rightarrow> 'u party" where
  "remove_join_request p player_id =
     p\<lparr>join_requests := (join_requests p)(player_id := None)\<rparr>"

definition clean_expired_join_requests :: "'u party \<Rightarrow> int \<Rightarrow> int \<Rightarrow> 'u set \<times> 'u party" where
  "clean_expired_join_requests p expiration_ms now =
     (let cutoff = now - expiration_ms
      in (swept (join_requests p) cutoff,
          p\<lparr>join_requests := sweep (join_requests p) cutoff\<rparr>))"

definition ban_player :: "'u party \<Rightarrow> 'u \<Rightarrow> 'u party" where
  "ban_player p player_id =
     remove_member (p\<lparr>banned_players := insert player_id (banned_players p)\<rparr>) player_id"

definition unban_player :: "'u party \<Rightarrow> 'u \<Rightarrow> 'u party" where
  "unban_player p player_id = p\<lparr>banned_players := banned_players p - {player_id}\<rparr>"

text \<open>
  The daily reward. \<open>timestamp_ms\<close> is the optional argument; \<open>clock\<close> is what
  \<open>now_ms()\<close> returns when it is absent.
\<close>

definition can_claim_daily_reward :: "'u party \<Rightarrow> 'u \<Rightarrow> int option \<Rightarrow> int \<Rightarrow> bool" where
  "can_claim_daily_reward p player_id timestamp_ms clock =
     (case last_daily_reward p player_id of
        None \<Rightarrow> True
      | Some last_claim \<Rightarrow>
          (let now = (case timestamp_ms of Some t \<Rightarrow> t | None \<Rightarrow> clock)
           in now - last_claim \<ge> MILLIS_PER_DAY))"

definition claim_daily_reward :: "'u party \<Rightarrow> 'u \<Rightarrow> int option \<Rightarrow> int \<Rightarrow> 'u party" where
  "claim_daily_reward p player_id timestamp_ms clock =
     (let now = (case timestamp_ms of Some t \<Rightarrow> t | None \<Rightarrow> clock);
          p1 = p\<lparr>last_daily_reward := (last_daily_reward p)(player_id \<mapsto> now)\<rparr>;
          p2 = (if last_reward_date p1 > 0 then
                  (let days_since = (now - last_reward_date p1) div MILLIS_PER_DAY
                   in if days_since = 1 then p1\<lparr>consecutive_days := consecutive_days p1 + 1\<rparr>
                      else if days_since > 1 then p1\<lparr>consecutive_days := 1\<rparr>
                      else p1)
                else p1\<lparr>consecutive_days := 1\<rparr>)
      in p2\<lparr>last_reward_date := now\<rparr>)"

section \<open>The library and the host\<close>

text \<open>
  What the code uses of Python and is not part of the repository stands as parameters:
  \<open>str(u)\<close> and \<open>UUID(s)\<close> of \<open>uuid.UUID\<close> (\<open>None\<close> when the constructor raises), the
  order in which a set or the keys of a dict are iterated, \<open>str(v)\<close> of a value that is
  not a string, \<open>int(s)\<close> and \<open>float(s)\<close> of a string (\<open>None\<close> when they raise
  \<open>ValueError\<close>), and \<open>dict(xs)\<close> of a non-empty list.
\<close>

record 'u pylib =
  uuid_str :: "'u \<Rightarrow> string"
  uuid_ctor :: "string \<Rightarrow> 'u option"
  set_iter :: "'u set \<Rightarrow> 'u list"
  str_other :: "json \<Rightarrow> string"
  int_of_str :: "string \<Rightarrow> int option"
  float_of_str :: "string \<Rightarrow> real option"
  dict_of_seq :: "json list \<Rightarrow> exc + (json \<times> json) list"

text \<open>The configuration values the registry reads through \<open>plugin.get_config\<close>.\<close>

record config =
  invite_expiration_ms :: int
  max_pending_invites :: int
  max_members :: int

text \<open>A \<open>Player\<close> of the host: \<open>unique_id\<close> and \<open>name\<close>.\<close>

record 'u player =
  unique_id :: 'u
  player_name :: string

section \<open>party_manager.py\<close>

text \<open>
  The state of \<open>PartyManager\<close> that the operations below touch; \<open>dirty\<close> is \<open>_dirty\<close>.
  An operation that takes a \<open>Party\<close> receives a reference to an object held in
  \<open>parties\<close>: the model passes the key \<open>pid\<close> under which it is held, reads the object
  there and writes the mutated object back. Every caller passes a party it has just read
  from the registry; for a key that holds nothing the model changes nothing. Each call
  reads the clock once (\<open>now\<close>); \<open>online u\<close> is \<open>server.get_player(u) is not None\<close>.
\<close>

record 'u registry =
  parties :: "'u \<rightharpoonup> 'u party"
  player_to_party :: "'u \<rightharpoonup> 'u"
  player_invites :: "'u \<rightharpoonup> 'u"
  last_marker_positions :: "'u \<rightharpoonup> real \<times> real \<times> real"
  player_names :: "'u \<rightharpoonup> string"
  dirty :: bool

definition mark_dirty :: "'u registry \<Rightarrow> 'u registry" where
  "mark_dirty s = s\<lparr>dirty := True\<rparr>"

definition record_player_name :: "'u registry \<Rightarrow> 'u player \<Rightarrow> 'u registry" where
  "record_player_name s pl =
     (if player_names s (unique_id pl) \<noteq> Some (player_name pl)
      then mark_dirty (s\<lparr>player_names := (player_names s)(unique_id pl \<mapsto> player_name pl)\<rparr>)
      else s)"

text \<open>
  \<open>save_all\<close>. \<open>storage_save\<close> is \<open>self.storage.save\<close>, failing with an exception or
  not; the first component of the result tells what the call did outside the registry.
\<close>

datatype io = NoIO | Saved | SaveFailed exc

definition save_all ::
  "(('u \<rightharpoonup> 'u party) \<Rightarrow> ('u \<rightharpoonup> string) \<Rightarrow> exc + unit) \<Rightarrow> 'u registry \<Rightarrow> bool \<Rightarrow> io \<times> 'u registry"
where
  "save_all storage_save s force =
     (if \<not> force \<and> \<not> dirty s then (NoIO, s)
      else case storage_save (parties s) (player_names s) of
             Inr _ \<Rightarrow> (Saved, s\<lparr>dirty := False\<rparr>)
           | Inl e \<Rightarrow> (SaveFailed e, s))"

definition get_player_party :: "'u registry \<Rightarrow> 'u \<Rightarrow> 'u party option" where
  "get_player_party s player_id =
     (case player_to_party s player_id of None \<Rightarrow> None | Some k \<Rightarrow> parties s k)"

definition is_in_party :: "'u registry \<Rightarrow> 'u \<Rightarrow> bool" where
  "is_in_party s player_id =
     (case get_player_party s player_id of None \<Rightarrow> False | Some p \<Rightarrow> is_member p player_id)"

definition create_party ::
  "'u registry \<Rightarrow> 'u player \<Rightarrow> 'u \<Rightarrow> int \<Rightarrow> 'u party option \<times> 'u registry" where
  "create_party s ldr new_id now =
     (if is_in_party s (unique_id ldr) then (None, s)
      else
        let p = create new_id (unique_id ldr) now;
            s1 = s\<lparr>parties := (parties s)(party_id p \<mapsto> p),
                   player_to_party := (player_to_party s)(unique_id ldr \<mapsto> party_id p)\<rparr>
        in (Some p, mark_dirty (record_player_name s1 ldr)))"

definition disband_party :: "'u registry \<Rightarrow> 'u \<Rightarrow> bool \<times> 'u registry" where
  "disband_party s pid =
     (case parties s pid of
        None \<Rightarrow> (False, s)
      | Some p \<Rightarrow>
          (True, mark_dirty (s\<lparr>
             parties := (parties s)(pid := None),
             player_to_party :=
               (\<lambda>m. if m \<in> members p \<and> player_to_party s m = Some pid then None
                    else player_to_party s m),
             last_marker_positions :=
               (\<lambda>m. if m \<in> members p then None else last_marker_positions s m),
             player_invites :=
               (\<lambda>i. if player_invites s i = Some pid then None else player_invites s i)\<rparr>)))"

definition invite_player ::
  "config \<Rightarrow> int \<Rightarrow> 'u registry \<Rightarrow> 'u \<Rightarrow> 'u \<Rightarrow> bool \<times> 'u registry" where
  "invite_player cfg now s pid player_id =
     (case parties s pid of
        None \<Rightarrow> (False, s)
      | Some p \<Rightarrow>
          let (expired, p1) = clean_expired_invites p (invite_expiration_ms cfg) now;
              s1 = s\<lparr>parties := (parties s)(pid \<mapsto> p1),
                     player_invites :=
                       (\<lambda>i. if i \<in> expired \<and> player_invites s i = Some (party_id p1) then None
                            else player_invites s i)\<rparr>
          in if has_invite p1 player_id then (False, s1)
             else if int (card (dom (invites p1))) \<ge> max_pending_invites cfg then (False, s1)
             else
               let p2 = party_invite_player p1 player_id now
               in (True, mark_dirty (s1\<lparr>
                     parties := (parties s1)(pid \<mapsto> p2),
                     player_invites := (player_invites s1)(player_id \<mapsto> party_id p2)\<rparr>)))"

definition accept_invite ::
  "config \<Rightarrow> int \<Rightarrow> 'u registry \<Rightarrow> 'u player \<Rightarrow> 'u \<Rightarrow> bool \<times> 'u registry" where
  "accept_invite cfg now s pl pid =
     (case parties s pid of
        None \<Rightarrow> (False, s)
      | Some p \<Rightarrow>
          let player_id = unique_id pl
          in if \<not> has_invite p player_id then (False, s)
             else
               let sent_at = (case invites p player_id of None \<Rightarrow> 0 | Some t \<Rightarrow> t)
               in if now - sent_at > invite_expiration_ms cfg then
                    (False, mark_dirty (s\<lparr>
                       parties := (parties s)(pid \<mapsto> remove_invite p player_id),
                       player_invites := (player_invites s)(player_id := None)\<rparr>))
                  else if int (card (members p)) \<ge> max_members cfg then (False, s)
                  else if player_id \<in> banned_players p then (False, s)
                  else if is_in_party s player_id then (False, s)
                  else
                    let p1 = add_member p player_id;
                        s1 = s\<lparr>parties := (parties s)(pid \<mapsto> p1),
                               player_to_party := (player_to_party s)(player_id \<mapsto> party_id p1),
                               player_invites := (player_invites s)(player_id := None)\<rparr>
                    in (True, mark_dirty (record_player_name s1 pl)))"

text \<open>
  \<open>_pick_new_leader\<close>: the first member, in the iteration order of the set, that is
  online; else the first of the members sorted by \<open>str\<close>; else \<open>None\<close>.
\<close>

definition pick_new_leader :: "'u pylib \<Rightarrow> ('u \<Rightarrow> bool) \<Rightarrow> 'u party \<Rightarrow> 'u option" where
  "pick_new_leader L online p =
     (case List.find online (set_iter L (members p)) of
        Some member_id \<Rightarrow> Some member_id
      | None \<Rightarrow>
          (case sort_key (uuid_str L) (set_iter L (members p)) of
             member_id # _ \<Rightarrow> Some member_id
           | [] \<Rightarrow> None))"

definition leave_party ::
  "'u pylib \<Rightarrow> ('u \<Rightarrow> bool) \<Rightarrow> 'u registry \<Rightarrow> 'u \<Rightarrow> ('u party option \<times> 'u option) \<times> 'u registry"
where
  "leave_party L online s player_id =
     (case player_to_party s player_id of
        None \<Rightarrow> ((None, None), s)
      | Some k \<Rightarrow>
         (case parties s k of
            None \<Rightarrow> ((None, None), s)
          | Some p \<Rightarrow>
              let was_leader = is_leader p player_id;
                  p1 = remove_member p player_id;
                  s1 = mark_dirty (s\<lparr>
                         parties := (parties s)(k \<mapsto> p1),
                         player_to_party := (player_to_party s)(player_id := None),
                         last_marker_positions := (last_marker_positions s)(player_id := None)\<rparr>)
              in if members p1 = {} then ((Some p1, None), snd (disband_party s1 (party_id p1)))
                 else if was_leader then
                   (case pick_new_leader L online p1 of
                      None \<Rightarrow> ((Some p1, None), s1)
                    | Some new_leader \<Rightarrow>
                        let p2 = snd (transfer_leadership p1 new_leader)
                        in ((Some p2, Some new_leader),
                            mark_dirty (s1\<lparr>parties := (parties s1)(k \<mapsto> p2)\<rparr>)))
                 else ((Some p1, None), s1)))"

definition kick_player :: "'u registry \<Rightarrow> 'u \<Rightarrow> 'u \<Rightarrow> bool \<times> 'u registry" where
  "kick_player s pid player_id =
     (case parties s pid of
        None \<Rightarrow> (False, s)
      | Some p \<Rightarrow>
          if player_id \<notin> members p then (False, s)
          else
            let p1 = remove_member p player_id;
                s1 = mark_dirty (s\<lparr>
                       parties := (parties s)(pid \<mapsto> p1),
                       player_to_party := (player_to_party s)(player_id := None),
                       last_marker_positions := (last_marker_positions s)(player_id := None)\<rparr>)
            in if members p1 = {} then (True, snd (disband_party s1 (party_id p1)))
               else (True, s1))"

definition add_player_to_party ::
  "config \<Rightarrow> 'u registry \<Rightarrow> 'u player \<Rightarrow> 'u \<Rightarrow> bool \<times> 'u registry" where
  "add_player_to_party cfg s pl pid =
     (case parties s pid of
        None \<Rightarrow> (False, s)
      | Some p \<Rightarrow>
          if is_in_party s (unique_id pl) then (False, s)
          else if int (card (members p)) \<ge> max_members cfg then (False, s)
          else
            let p1 = add_member p (unique_id pl);
                s1 = s\<lparr>parties := (parties s)(pid \<mapsto> p1),
                       player_to_party := (player_to_party s)(unique_id pl \<mapsto> party_id p1),
                       player_invites := (player_invites s)(unique_id pl := None)\<rparr>
            in (True, mark_dirty (record_player_name s1 pl)))"

definition request_to_join :: "int \<Rightarrow> 'u registry \<Rightarrow> 'u \<Rightarrow> 'u \<Rightarrow> bool \<times> 'u registry" where
  "request_to_join now s requester_id pid =
     (case parties s pid of
        None \<Rightarrow> (False, s)
      | Some p \<Rightarrow>
          if requester_id \<in> banned_players p then (False, s)
          else if has_join_request p requester_id then (False, s)
          else (True, mark_dirty (s\<lparr>
                  parties := (parties s)(pid \<mapsto> add_join_request p requester_id now)\<rparr>)))"

definition accept_join_request ::
  "config \<Rightarrow> 'u registry \<Rightarrow> 'u \<Rightarrow> 'u player \<Rightarrow> bool \<times> 'u registry" where
  "accept_join_request cfg s pid requester =
     (case parties s pid of
        None \<Rightarrow> (False, s)
      | Some p \<Rightarrow>
          let requester_id = unique_id requester
          in if \<not> has_join_request p requester_id then (False, s)
             else
               let s1 = mark_dirty (s\<lparr>
                          parties := (parties s)(pid \<mapsto> remove_join_request p requester_id)\<rparr>)
               in add_player_to_party cfg s1 requester pid)"

text \<open>
  The ban, which lives in the command handler \<open>_party_ban\<close>: \<open>party.ban_player\<close>, then
  the player's entry leaves \<open>player_to_party\<close>.
\<close>

definition party_ban :: "'u registry \<Rightarrow> 'u \<Rightarrow> 'u \<Rightarrow> 'u registry" where
  "party_ban s pid target_id =
     (case parties s pid of
        None \<Rightarrow> s
      | Some p \<Rightarrow>
          mark_dirty (s\<lparr>
            parties := (parties s)(pid \<mapsto> ban_player p target_id),
            player_to_party := (player_to_party s)(target_id := None)\<rparr>))"

section \<open>Snapshots\<close>

text \<open>
  The builtins of the host language on the values of a snapshot. A call that can raise
  returns \<open>Inl\<close> of the exception. Strings are sequences of code points below 256.
  A float stands as a real: rounding, \<open>float\<close> of an int too large for a float and
  \<open>int\<close> of an infinity or a NaN are outside the model.
\<close>

definition bind :: "exc + 'a \<Rightarrow> ('a \<Rightarrow> exc + 'b) \<Rightarrow> exc + 'b" where
  "bind m f = (case m of Inl e \<Rightarrow> Inl e | Inr v \<Rightarrow> f v)"

definition dict_get :: "(string \<times> json) list \<Rightarrow> string \<Rightarrow> json \<Rightarrow> json" where
  "dict_get data k d = (case map_of data k of None \<Rightarrow> d | Some v \<Rightarrow> v)"

definition py_str :: "'u pylib \<Rightarrow> json \<Rightarrow> string" where
  "py_str L v =
     (case v of
        JStr s \<Rightarrow> s
      | JNull \<Rightarrow> ''None''
      | JBool b \<Rightarrow> (if b then ''True'' else ''False'')
      | _ \<Rightarrow> str_other L v)"

definition truthy :: "json \<Rightarrow> bool" where
  "truthy v =
     (case v of
        JNull \<Rightarrow> False
      | JBool b \<Rightarrow> b
      | JInt n \<Rightarrow> n \<noteq> 0
      | JFloat r \<Rightarrow> r \<noteq> 0
      | JStr s \<Rightarrow> s \<noteq> []
      | JList xs \<Rightarrow> xs \<noteq> []
      | JDict kvs \<Rightarrow> kvs \<noteq> [])"

definition py_int :: "'u pylib \<Rightarrow> json \<Rightarrow> exc + int" where
  "py_int L v =
     (case v of
        JInt n \<Rightarrow> Inr n
      | JBool b \<Rightarrow> Inr (if b then 1 else 0)
      | JFloat r \<Rightarrow> Inr (if r \<ge> 0 then \<lfloor>r\<rfloor> else \<lceil>r\<rceil>)
      | JStr s \<Rightarrow> (case int_of_str L s of None \<Rightarrow> Inl ValueError | Some n \<Rightarrow> Inr n)
      | _ \<Rightarrow> Inl TypeError)"

definition py_float :: "'u pylib \<Rightarrow> json \<Rightarrow> exc + real" where
  "py_float L v =
     (case v of
        JFloat r \<Rightarrow> Inr r
      | JInt n \<Rightarrow> Inr (of_int n)
      | JBool b \<Rightarrow> Inr (if b then 1 else 0)
      | JStr s \<Rightarrow> (case float_of_str L s of None \<Rightarrow> Inl ValueError | Some r \<Rightarrow> Inr r)
      | _ \<Rightarrow> Inl TypeError)"

text \<open>\<open>dict(v).items()\<close> and the iteration \<open>for x in v\<close>.\<close>

definition py_dict :: "'u pylib \<Rightarrow> json \<Rightarrow> exc + (json \<times> json) list" where
  "py_dict L v =
     (case v of
        JDict kvs \<Rightarrow> Inr (map (\<lambda>(k, x). (JStr k, x)) kvs)
      | JList xs \<Rightarrow> (if xs = [] then Inr [] else dict_of_seq L xs)
      | JStr s \<Rightarrow> (if s = [] then Inr [] else Inl ValueError)
      | _ \<Rightarrow> Inl TypeError)"

definition py_iter :: "json \<Rightarrow> exc + json list" where
  "py_iter v =
     (case v of
        JList xs \<Rightarrow> Inr xs
      | JStr s \<Rightarrow> Inr (map (\<lambda>c. JStr [c]) s)
      | JDict kvs \<Rightarrow> Inr (map (\<lambda>(k, x). JStr k) kvs)
      | _ \<Rightarrow> Inl TypeError)"

text \<open>\<open>str.strip\<close> and \<open>str.lower\<close>.\<close>

definition is_space :: "char \<Rightarrow> bool" where
  "is_space c = ((of_char c :: nat) \<in> {9, 10, 11, 12, 13, 28, 29, 30, 31, 32, 133, 160})"

definition strip :: "string \<Rightarrow> string" where
  "strip s = rev (dropWhile is_space (rev (dropWhile is_space s)))"

definition lower_char :: "char \<Rightarrow> char" where
  "lower_char c =
     (let n = (of_char c :: nat)
      in if (65 \<le> n \<and> n \<le> 90) \<or> (192 \<le> n \<and> n \<le> 222 \<and> n \<noteq> 215)
         then char_of (n + 32) else c)"

definition lower :: "string \<Rightarrow> string" where
  "lower s = map lower_char s"

text \<open>\<open>PartyRole.parse\<close>; a truthy value that is no string has no \<open>strip\<close>.\<close>

definition role_parse :: "json \<Rightarrow> exc + PartyRole" where
  "role_parse v =
     (if \<not> truthy v then Inr MEMBER
      else case v of
             JStr s \<Rightarrow>
               (let normalized = lower (strip s)
                in case List.find (\<lambda>r. role_value r = normalized)
                          [LEADER, OFFICER, MEMBER, RECRUIT] of
                     Some r \<Rightarrow> Inr r
                   | None \<Rightarrow> Inr MEMBER)
           | _ \<Rightarrow> Inl AttributeError)"

text \<open>\<open>LocationData.to_dict\<close> and \<open>LocationData.from_dict\<close>.\<close>

definition location_to_dict :: "LocationData \<Rightarrow> (string \<times> json) list" where
  "location_to_dict h =
     [(''level'', JStr (level h)), (''dimension'', JStr (dimension h)),
      (''x'', JFloat (pos_x h)), (''y'', JFloat (pos_y h)), (''z'', JFloat (pos_z h)),
      (''pitch'', JFloat (pitch h)), (''yaw'', JFloat (yaw h))]"

definition location_from_dict :: "'u pylib \<Rightarrow> (string \<times> json) list \<Rightarrow> exc + LocationData" where
  "location_from_dict L data =
     bind (py_float L (dict_get data ''x'' (JFloat 0))) (\<lambda>vx.
     bind (py_float L (dict_get data ''y'' (JFloat 0))) (\<lambda>vy.
     bind (py_float L (dict_get data ''z'' (JFloat 0))) (\<lambda>vz.
     bind (py_float L (dict_get data ''pitch'' (JFloat 0))) (\<lambda>vp.
     bind (py_float L (dict_get data ''yaw'' (JFloat 0))) (\<lambda>vw.
       Inr \<lparr>level = py_str L (dict_get data ''level'' (JStr '''')),
            dimension = py_str L (dict_get data ''dimension'' (JStr ''overworld'')),
            pos_x = vx, pos_y = vy, pos_z = vz, pitch = vp, yaw = vw\<rparr>)))))"

text \<open>\<open>_parse_uuid\<close>: \<open>UUID(str(value))\<close>, \<open>None\<close> when it raises.\<close>

definition parse_uuid :: "'u pylib \<Rightarrow> json \<Rightarrow> 'u option" where
  "parse_uuid L v = uuid_ctor L (py_str L v)"

text \<open>
  The items of a dict of the party, in the order of iteration, and \<open>Party.to_dict\<close>.
\<close>

definition dict_items :: "'u pylib \<Rightarrow> ('u \<rightharpoonup> 'v) \<Rightarrow> ('u \<times> 'v) list" where
  "dict_items L m = List.map_filter (\<lambda>k. map_option (Pair k) (m k)) (set_iter L (dom m))"

definition id_list :: "'u pylib \<Rightarrow> 'u set \<Rightarrow> json" where
  "id_list L A = JList (map (\<lambda>i. JStr (uuid_str L i)) (sort_key (uuid_str L) (set_iter L A)))"

definition int_dict :: "'u pylib \<Rightarrow> ('u \<rightharpoonup> int) \<Rightarrow> json" where
  "int_dict L m = JDict (map (\<lambda>(player_id, t). (uuid_str L player_id, JInt t)) (dict_items L m))"

definition to_dict :: "'u pylib \<Rightarrow> 'u party \<Rightarrow> (string \<times> json) list" where
  "to_dict L p =
     [(''id'', JStr (uuid_str L (party_id p))),
      (''leader'', JStr (uuid_str L (leader p))),
      (''members'', id_list L (members p)),
      (''invites'', int_dict L (invites p)),
      (''join_requests'', int_dict L (join_requests p)),
      (''home'', (case home p of Some h \<Rightarrow> JDict (location_to_dict h) | None \<Rightarrow> JNull)),
      (''created_at'', JInt (created_at p)),
      (''name'', name p),
      (''is_public'', JBool (is_public p)),
      (''roles'', JDict (map (\<lambda>(player_id, r). (uuid_str L player_id, JStr (role_value r)))
                          (dict_items L (roles p)))),
      (''banned_players'', id_list L (banned_players p)),
      (''total_play_time_ms'', JInt (total_play_time_ms p)),
      (''total_kills'', JInt (total_kills p)),
      (''total_deaths'', JInt (total_deaths p)),
      (''color'', JStr (color p)),
      (''icon'', JStr (icon p)),
      (''allies'', id_list L (allies p)),
      (''last_daily_reward'', int_dict L (last_daily_reward p)),
      (''consecutive_days'', JInt (consecutive_days p)),
      (''last_reward_date'', JInt (last_reward_date p)),
      (''achievements'', JList (map JStr (sorted_list_of_set (achievements p)))),
      (''last_seen'', int_dict L (last_seen p))]"

text \<open>
  The dict comprehensions of \<open>Party.from_dict\<close>: an entry whose key does not parse is
  skipped before its value is looked at; a later entry for the same identifier wins.
\<close>

fun uuid_dict ::
  "'u pylib \<Rightarrow> (json \<Rightarrow> exc + 'v) \<Rightarrow> (json \<times> json) list \<Rightarrow> ('u \<rightharpoonup> 'v) \<Rightarrow> exc + ('u \<rightharpoonup> 'v)"
where
  "uuid_dict L f [] acc = Inr acc"
| "uuid_dict L f ((raw_player, v) # items) acc =
     (case parse_uuid L raw_player of
        None \<Rightarrow> uuid_dict L f items acc
      | Some player_id \<Rightarrow>
          (case f v of
             Inl e \<Rightarrow> Inl e
           | Inr x \<Rightarrow> uuid_dict L f items (acc(player_id \<mapsto> x))))"

definition dict_comp :: "'u pylib \<Rightarrow> (json \<Rightarrow> exc + 'v) \<Rightarrow> json \<Rightarrow> exc + ('u \<rightharpoonup> 'v)" where
  "dict_comp L f v = bind (py_dict L v) (\<lambda>items. uuid_dict L f items Map.empty)"

definition id_set :: "'u pylib \<Rightarrow> json \<Rightarrow> exc + 'u set" where
  "id_set L v = bind (py_iter v) (\<lambda>xs. Inr (set (List.map_filter (parse_uuid L) xs)))"

text \<open>\<open>Party.from_dict\<close>; \<open>now\<close> is \<open>now_ms()\<close>, the default of \<open>created_at\<close>.\<close>

definition from_dict ::
  "'u pylib \<Rightarrow> int \<Rightarrow> (string \<times> json) list \<Rightarrow> exc + 'u party option" where
  "from_dict L now data =
     (case parse_uuid L (dict_get data ''id'' JNull) of
        None \<Rightarrow> Inr None
      | Some pid \<Rightarrow>
     (case parse_uuid L (dict_get data ''leader'' JNull) of
        None \<Rightarrow> Inr None
      | Some leader_id \<Rightarrow>
     bind (id_set L (dict_get data ''members'' (JList []))) (\<lambda>v_members.
     bind (dict_comp L (py_int L) (dict_get data ''invites'' (JDict []))) (\<lambda>v_invites.
     bind (dict_comp L (py_int L) (dict_get data ''join_requests'' (JDict []))) (\<lambda>v_requests.
     bind (case dict_get data ''home'' JNull of
             JDict h \<Rightarrow> bind (location_from_dict L h) (\<lambda>loc. Inr (Some loc))
           | _ \<Rightarrow> Inr None) (\<lambda>v_home.
     bind (py_int L (dict_get data ''created_at'' (JInt now))) (\<lambda>v_created.
     bind (dict_comp L role_parse (dict_get data ''roles'' (JDict []))) (\<lambda>v_roles.
     bind (id_set L (dict_get data ''banned_players'' (JList []))) (\<lambda>v_banned.
     bind (py_int L (dict_get data ''total_play_time_ms'' (JInt 0))) (\<lambda>v_play.
     bind (py_int L (dict_get data ''total_kills'' (JInt 0))) (\<lambda>v_kills.
     bind (py_int L (dict_get data ''total_deaths'' (JInt 0))) (\<lambda>v_deaths.
     bind (id_set L (dict_get data ''allies'' (JList []))) (\<lambda>v_allies.
     bind (dict_comp L (py_int L) (dict_get data ''last_daily_reward'' (JDict []))) (\<lambda>v_reward.
     bind (py_int L (dict_get data ''consecutive_days'' (JInt 0))) (\<lambda>v_days.
     bind (py_int L (dict_get data ''last_reward_date'' (JInt 0))) (\<lambda>v_date.
     bind (py_iter (dict_get data ''achievements'' (JList []))) (\<lambda>v_achievements.
     bind (dict_comp L (py_int L) (dict_get data ''last_seen'' (JDict []))) (\<lambda>v_seen.
       let p = \<lparr> party_id = pid, leader = leader_id, members = v_members,
                  invites = v_invites, join_requests = v_requests, home = v_home,
                  created_at = v_created,
                  name = (if truthy (dict_get data ''name'' JNull)
                          then dict_get data ''name'' JNull else JNull),
                  is_public = truthy (dict_get data ''is_public'' (JBool True)),
                  roles = v_roles, banned_players = v_banned,
                  total_play_time_ms = v_play, total_kills = v_kills,
                  total_deaths = v_deaths,
                  color = py_str L (dict_get data ''color'' (JStr default_color)),
                  icon = py_str L (dict_get data ''icon'' (JStr ''*'')),
                  allies = v_allies, last_daily_reward = v_reward,
                  consecutive_days = v_days, last_reward_date = v_date,
                  achievements = set (map (py_str L) v_achievements),
                  last_seen = v_seen \<rparr>;
           p = (if leader_id \<notin> members p
                then p\<lparr>members := insert leader_id (members p)\<rparr> else p);
           p = p\<lparr>roles := (roles p)(leader_id \<mapsto> LEADER)\<rparr>;
           p = p\<lparr>roles := (\<lambda>player_id. if player_id \<in> members p then roles p player_id
                                        else None)\<rparr>
       in Inr (Some p)))))))))))))))))))"

section \<open>storage.py\<close>

text \<open>
  \<open>PartyStorage.load\<close>. The argument is what \<open>json.load\<close> returns, \<open>None\<close> when the file
  is missing or is no JSON document.
\<close>

fun load_names :: "'u pylib \<Rightarrow> (string \<times> json) list \<Rightarrow> ('u \<rightharpoonup> string) \<Rightarrow> ('u \<rightharpoonup> string)" where
  "load_names L [] acc = acc"
| "load_names L ((raw_player, raw_name) # items) acc =
     (case uuid_ctor L raw_player of
        None \<Rightarrow> load_names L items acc
      | Some player_id \<Rightarrow>
          (let nm = strip (py_str L raw_name)
           in if nm = [] then load_names L items acc
              else load_names L items (acc(player_id \<mapsto> nm))))"

fun load_entries ::
  "'u pylib \<Rightarrow> int \<Rightarrow> json list \<Rightarrow> ('u \<rightharpoonup> 'u party) \<Rightarrow> exc + ('u \<rightharpoonup> 'u party)" where
  "load_entries L now [] acc = Inr acc"
| "load_entries L now (entry # entries) acc =
     (case entry of
        JDict d \<Rightarrow>
          (case from_dict L now d of
             Inl e \<Rightarrow> Inl e
           | Inr None \<Rightarrow> load_entries L now entries acc
           | Inr (Some p) \<Rightarrow> load_entries L now entries (acc(party_id p \<mapsto> p)))
      | _ \<Rightarrow> load_entries L now entries acc)"

definition load ::
  "'u pylib \<Rightarrow> int \<Rightarrow> json option \<Rightarrow> exc + ('u \<rightharpoonup> 'u party) \<times> ('u \<rightharpoonup> string)" where
  "load L now payload =
     (case payload of
        None \<Rightarrow> Inr (Map.empty, Map.empty)
      | Some (JList entries) \<Rightarrow>
          bind (load_entries L now entries Map.empty) (\<lambda>ps. Inr (ps, Map.empty))
      | Some (JDict d) \<Rightarrow>
          (let names = (case dict_get d ''player_names'' (JDict []) of
                          JDict raw_names \<Rightarrow> load_names L raw_names Map.empty
                        | _ \<Rightarrow> Map.empty)
           in bind (py_iter (dict_get d ''parties'' (JList []))) (\<lambda>entries.
              bind (load_entries L now entries Map.empty) (\<lambda>ps. Inr (ps, names))))
      | Some _ \<Rightarrow> Inr (Map.empty, Map.empty))"

section \<open>party_manager.py: loading\<close>

text \<open>
  \<open>_rebuild_indexes\<close>, one party after the other in the order of iteration of
  \<open>parties\<close>, and \<open>load_all\<close>; \<open>loaded\<close> is what \<open>self.storage.load()\<close> returned or
  raised.
\<close>

definition rebuild_one :: "'u \<Rightarrow> 'u registry \<times> bool \<Rightarrow> 'u registry \<times> bool" where
  "rebuild_one k sc =
     (let (s, changed) = sc
      in case parties s k of
           None \<Rightarrow> (s, changed)
         | Some p \<Rightarrow>
             let (p1, c1) = (if leader p \<notin> members p
                             then (p\<lparr>members := insert (leader p) (members p)\<rparr>, True)
                             else (p, changed));
                 c2 = (if roles p1 (leader p1) \<noteq> Some LEADER then True else c1);
                 p2 = p1\<lparr>roles := (roles p1)(leader p1 \<mapsto> LEADER)\<rparr>
             in (s\<lparr>parties := (parties s)(k \<mapsto> p2),
                   player_to_party :=
                     (\<lambda>m. if m \<in> members p2 then Some (party_id p2) else player_to_party s m),
                   player_invites :=
                     (\<lambda>i. if invites p2 i \<noteq> None then Some (party_id p2)
                          else player_invites s i)\<rparr>,
                 c2))"

definition rebuild_indexes :: "'u pylib \<Rightarrow> 'u registry \<Rightarrow> 'u registry" where
  "rebuild_indexes L s =
     (let (s1, changed) =
            fold rebuild_one (set_iter L (dom (parties s)))
              (s\<lparr>player_to_party := Map.empty, player_invites := Map.empty\<rparr>, False)
      in if changed then mark_dirty s1 else s1)"

definition load_all ::
  "'u pylib \<Rightarrow> exc + ('u \<rightharpoonup> 'u party) \<times> ('u \<rightharpoonup> string) \<Rightarrow> 'u registry \<Rightarrow> 'u registry" where
  "load_all L loaded s =
     (let s1 = (case loaded of
                  Inr (ps, ns) \<Rightarrow> s\<lparr>parties := ps, player_names := ns\<rparr>
                | Inl e \<Rightarrow> s\<lparr>parties := Map.empty, player_names := Map.empty\<rparr>)
      in rebuild_indexes L (s1\<lparr>dirty := False\<rparr>))"

section \<open>Sequences of registry operations\<close>

text \<open>
  One call of an operation of the registry, with the arguments the operation takes
  (the clock, or who is online, where it reads them).
\<close>

datatype 'u call =
    CreateParty "'u player" 'u int
  | DisbandParty 'u
  | InvitePlayer int 'u 'u
  | AcceptInvite int "'u player" 'u
  | LeaveParty "'u \<Rightarrow> bool" 'u
  | KickPlayer 'u 'u
  | AddPlayerToParty "'u player" 'u
  | RequestToJoin int 'u 'u
  | AcceptJoinRequest 'u "'u player"
  | Ban 'u 'u

fun apply_call :: "'u pylib \<Rightarrow> config \<Rightarrow> 'u registry \<Rightarrow> 'u call \<Rightarrow> 'u registry" where
  "apply_call L cfg s (CreateParty ldr new_id now) = snd (create_party s ldr new_id now)"
| "apply_call L cfg s (DisbandParty pid) = snd (disband_party s pid)"
| "apply_call L cfg s (InvitePlayer now pid player_id) = snd (invite_player cfg now s pid player_id)"
| "apply_call L cfg s (AcceptInvite now pl pid) = snd (accept_invite cfg now s pl pid)"
| "apply_call L cfg s (LeaveParty online player_id) = snd (leave_party L online s player_id)"
| "apply_call L cfg s (KickPlayer pid player_id) = snd (kick_player s pid player_id)"
| "apply_call L cfg s (AddPlayerToParty pl pid) = snd (add_player_to_party cfg s pl pid)"
| "apply_call L cfg s (RequestToJoin now requester_id pid) = snd (request_to_join now s requester_id pid)"
| "apply_call L cfg s (AcceptJoinRequest pid requester) = snd (accept_join_request cfg s pid requester)"
| "apply_call L cfg s (Ban pid target_id) = party_ban s pid target_id"

fun run :: "'u pylib \<Rightarrow> config \<Rightarrow> 'u registry \<Rightarrow> 'u call list \<Rightarrow> 'u registry" where
  "run L cfg s [] = s"
| "run L cfg s (c # cs) = run L cfg (apply_call L cfg s c) cs"

text \<open>Invariants 1 to 4 of the data model, for one party and for every party held.\<close>

definition party_inv :: "'u party \<Rightarrow> bool" where
  "party_inv p \<longleftrightarrow>
     leader p \<in> members p
     \<and> roles p (leader p) = Some LEADER \<and> dom (roles p) \<subseteq> members p
     \<and> members p \<inter> dom (invites p) = {}
     \<and> members p \<inter> dom (join_requests p) = {}
     \<and> members p \<inter> banned_players p = {}
     \<and> members p \<noteq> {}"

definition registry_inv :: "'u registry \<Rightarrow> bool" where
  "registry_inv s \<longleftrightarrow> (\<forall>k p. parties s k = Some p \<longrightarrow> party_inv p)"

text \<open>
  The same without the clause on role entries outside the members, and with what the
  representation adds: a party is held under its own id, and its member set is finite.
\<close>

definition party_ok :: "'u party \<Rightarrow> bool" where
  "party_ok p \<longleftrightarrow>
     leader p \<in> members p
     \<and> roles p (leader p) = Some LEADER
     \<and> members p \<inter> dom (invites p) = {}
     \<and> members p \<inter> dom (join_requests p) = {}
     \<and> members p \<inter> banned_players p = {}
     \<and> members p \<noteq> {}
     \<and> finite (members p)"

definition registry_ok :: "'u registry \<Rightarrow> bool" where
  "registry_ok s \<longleftrightarrow> (\<forall>k p. parties s k = Some p \<longrightarrow> party_id p = k \<and> party_ok p)"

text \<open>
  What the command handlers check before they call the registry: the invited player and
  the requester are not members of the party, the kicked or banned player is not its
  leader, the player added is not banned from it.
\<close>

fun call_ok :: "'u registry \<Rightarrow> 'u call \<Rightarrow> bool" where
  "call_ok s (InvitePlayer now pid player_id) =
     (case parties s pid of None \<Rightarrow> True | Some p \<Rightarrow> player_id \<notin> members p)"
| "call_ok s (RequestToJoin now requester_id pid) =
     (case parties s pid of None \<Rightarrow> True | Some p \<Rightarrow> requester_id \<notin> members p)"
| "call_ok s (KickPlayer pid player_id) =
     (case parties s pid of None \<Rightarrow> True | Some p \<Rightarrow> player_id \<noteq> leader p)"
| "call_ok s (Ban pid target_id) =
     (case parties s pid of None \<Rightarrow> True | Some p \<Rightarrow> target_id \<noteq> leader p)"
| "call_ok s (AddPlayerToParty pl pid) =
     (case parties s pid of None \<Rightarrow> True | Some p \<Rightarrow> unique_id pl \<notin> banned_players p)"
| "call_ok s (AcceptJoinRequest pid requester) =
     (case parties s pid of None \<Rightarrow> True | Some p \<Rightarrow> unique_id requester \<notin> banned_players p)"
| "call_ok s c = True"

fun calls_ok :: "'u pylib \<Rightarrow> config \<Rightarrow> 'u registry \<Rightarrow> 'u call list \<Rightarrow> bool" where
  "calls_ok L cfg s [] = True"
| "calls_ok L cfg s (c # cs) = (call_ok s c \<and> calls_ok L cfg (apply_call L cfg s c) cs)"

text \<open>The iteration of a finite set enumerates the set.\<close>

definition lib_ok :: "'u pylib \<Rightarrow> bool" where
  "lib_ok L \<longleftrightarrow> (\<forall>S. finite S \<longrightarrow> set (set_iter L S) = S)"

section \<open>Instances\<close>

text \<open>
  The configuration with the defaults of the source, the registry of a server that has
  loaded nothing, and two players; identifiers are natural numbers here.
\<close>

definition cfg0 :: config where
  "cfg0 = \<lparr>invite_expiration_ms = 300000, max_pending_invites = 10, max_members = 8\<rparr>"

definition empty_registry :: "'u registry" where
  "empty_registry =
     \<lparr>parties = Map.empty, player_to_party = Map.empty, player_invites = Map.empty,
      last_marker_positions = Map.empty, player_names = Map.empty, dirty = False\<rparr>"

definition alice :: "nat player" where
  "alice = \<lparr>unique_id = 1, player_name = ''Alice''\<rparr>"

definition bob :: "nat player" where
  "bob = \<lparr>unique_id = 2, player_name = ''Bob''\<rparr>"

text \<open>Alice creates party 100 at time 0 and invites Bob at time 1000.\<close>

definition alice_party :: "nat registry" where
  "alice_party = snd (create_party empty_registry alice 100 0)"

definition invited_at_1000 :: "nat registry" where
  "invited_at_1000 = snd (invite_player cfg0 1000 alice_party 100 2)"

definition carol :: "nat player" where
  "carol = \<lparr>unique_id = 3, player_name = ''Carol''\<rparr>"

text \<open>
  A library for the instances: an identifier \<open>n\<close> prints as \<open>n\<close> times the character
  \<open>1\<close>, and a set is iterated in ascending order.
\<close>

definition nat_lib :: "nat pylib" where
  "nat_lib =
     \<lparr>uuid_str = (\<lambda>n. replicate n (CHR ''1'')),
      uuid_ctor = (\<lambda>s. if set s \<subseteq> {CHR ''1''} then Some (length s) else None),
      set_iter = sorted_list_of_set,
      str_other = (\<lambda>v. ''?''),
      int_of_str = (\<lambda>s. None),
      float_of_str = (\<lambda>s. None),
      dict_of_seq = (\<lambda>xs. Inl TypeError)\<rparr>"

text \<open>Bob, then Carol, join Alice's party.\<close>

definition duo :: "nat registry" where
  "duo = snd (add_player_to_party cfg0 alice_party bob 100)"

definition trio :: "nat registry" where
  "trio = snd (add_player_to_party cfg0 duo carol 100)"

definition duo_party :: "nat party" where
  "duo_party = the (parties duo 100)"

definition trio_party :: "nat party" where
  "trio_party = the (parties trio 100)"

text \<open>
  The end-to-end scenario: Alice creates a party, invites Bob, Bob accepts, Alice leaves,
  Bob leaves. \<open>leader_left\<close> is the registry after Alice has left; \<open>self_invited\<close> is
  the registry after Alice has created a party and invited herself.
\<close>

definition scenario :: "nat call list" where
  "scenario =
     [CreateParty alice 100 0, InvitePlayer 1000 100 2, AcceptInvite 2000 bob 100,
      LeaveParty (\<lambda>u. True) 1, LeaveParty (\<lambda>u. True) 2]"

definition self_invited :: "nat registry" where
  "self_invited =
     run nat_lib cfg0 empty_registry [CreateParty alice 100 0, InvitePlayer 1000 100 1]"

definition leader_left :: "nat registry" where
  "leader_left = run nat_lib cfg0 empty_registry (take 4 scenario)"

text \<open>
  Snapshot entries. \<open>violating\<close> has a leader who is not among the members, the role
  \<open>member\<close> for the leader and a role for a player who is no member. \<open>bad_entry\<close> has
  \<open>null\<close> for the time of an invite; \<open>document\<close> holds it after a well-formed entry.
\<close>

definition violating :: "(string \<times> json) list" where
  "violating =
     [(''id'', JStr ''1''), (''leader'', JStr ''11''),
      (''members'', JList [JStr ''111'']),
      (''roles'', JDict [(''11'', JStr ''member''), (''1111'', JStr ''officer'')])]"

definition good_entry :: "(string \<times> json) list" where
  "good_entry = [(''id'', JStr ''1''), (''leader'', JStr ''11''), (''members'', JList [JStr ''11''])]"

definition bad_entry :: "(string \<times> json) list" where
  "bad_entry =
     [(''id'', JStr ''111''), (''leader'', JStr ''1111''),
      (''invites'', JDict [(''11111'', JNull)])]"

definition document :: json where
  "document = JDict [(''parties'', JList [JDict good_entry, JDict bad_entry])]"

text \<open>A party whose name is the empty string.\<close>

definition unnamed :: "nat party" where
  "unnamed = (create 100 1 0)\<lparr>name := JStr []\<rparr>"

section \<open>Evaluation\<close>

lemmas party_defs =
  create_def new_party_def is_member_def is_leader_def get_role_def set_role_def
  transfer_leadership_def add_member_def remove_member_def party_invite_player_def
  has_invite_def remove_invite_def sweep_def swept_def clean_expired_invites_def
  add_join_request_def has_join_request_def remove_join_request_def
  clean_expired_join_requests_def ban_player_def unban_player_def

lemmas registry_defs =
  mark_dirty_def record_player_name_def get_player_party_def is_in_party_def
  create_party_def disband_party_def invite_player_def accept_invite_def
  kick_player_def add_player_to_party_def request_to_join_def accept_join_request_def
  party_ban_def

lemmas instance_defs =
  cfg0_def empty_registry_def alice_def bob_def alice_party_def invited_at_1000_def
  carol_def duo_def trio_def duo_party_def trio_party_def

lemmas snapshot_defs =
  bind_def dict_get_def py_str_def truthy_def py_int_def py_float_def py_dict_def py_iter_def
  role_parse_def location_from_dict_def parse_uuid_def dict_comp_def id_set_def
  from_dict_def load_def load_all_def rebuild_indexes_def rebuild_one_def
  List.map_filter_simps nat_lib_def

section \<open>The daily reward\<close>

text \<open>
  C7. A claim made when no reward date is recorded (\<open>last_reward_date\<close> is not
  positive) sets \<open>consecutive_days\<close> to 1. A later claim computes
  \<open>days_since = (now - last_reward_date) div 86400000\<close>: 1 increments the streak, more
  than 1 resets it to 1. Claims at \<open>t0\<close>, one day later and three days later, \<open>t0\<close> a
  positive timestamp, give the streaks 1, 2, 1. A player can claim exactly when there is
  no previous claim of theirs or at least 86400000 ms have passed since it.
\<close>

theorem daily_reward_streak:
  "(\<not> last_reward_date p > 0 \<longrightarrow>
      consecutive_days (claim_daily_reward p u (Some now) clock) = 1)
   \<and> (last_reward_date p > 0 \<and> (now - last_reward_date p) div 86400000 = 1 \<longrightarrow>
      consecutive_days (claim_daily_reward p u (Some now) clock) = consecutive_days p + 1)
   \<and> (last_reward_date p > 0 \<and> (now - last_reward_date p) div 86400000 > 1 \<longrightarrow>
      consecutive_days (claim_daily_reward p u (Some now) clock) = 1)
   \<and> last_reward_date (claim_daily_reward p u (Some now) clock) = now
   \<and> (0 < t0 \<and> \<not> last_reward_date p > 0 \<longrightarrow>
      (let p1 = claim_daily_reward p u (Some t0) clock;
           p2 = claim_daily_reward p1 u (Some (t0 + 86400000)) clock;
           p3 = claim_daily_reward p2 u (Some (t0 + 3 * 86400000)) clock
       in [consecutive_days p1, consecutive_days p2, consecutive_days p3] = [1, 2, 1]))
   \<and> can_claim_daily_reward p u (Some now) clock =
      (case last_daily_reward p u of
         None \<Rightarrow> True
       | Some last_claim \<Rightarrow> now - last_claim \<ge> 86400000)"
  by (simp add: claim_daily_reward_def can_claim_daily_reward_def MILLIS_PER_DAY_def Let_def
           split: option.splits)

theorem daily_reward_streak_witness:
  "(0::int) < 1000000 \<and> \<not> last_reward_date (create 100 (1::nat) 0) > 0
   \<and> (let p1 = claim_daily_reward (create 100 (1::nat) 0) 1 (Some 1000000) 0;
          p2 = claim_daily_reward p1 1 (Some (1000000 + 86400000)) 0;
          p3 = claim_daily_reward p2 1 (Some (1000000 + 3 * 86400000)) 0
      in [consecutive_days p1, consecutive_days p2, consecutive_days p3] = [1, 2, 1])"
  using daily_reward_streak [of "create 100 (1::nat) 0" 1 0 0 1000000]
  by (simp add: party_defs)

section \<open>Saving\<close>

text \<open>
  C9. \<open>save_all\<close> calls the storage exactly when the dirty flag is set or \<open>force\<close> is
  true, and otherwise leaves the registry as it is. When the save succeeds the flag is
  cleared; when it fails the registry, and so the flag, stays as it was.
\<close>

theorem save_all_dirty_gate:
  "(fst (save_all storage_save s force) \<noteq> NoIO) = (dirty s \<or> force)
   \<and> (fst (save_all storage_save s force) = NoIO \<longrightarrow>
        snd (save_all storage_save s force) = s)
   \<and> (fst (save_all storage_save s force) = Saved \<longrightarrow>
        storage_save (parties s) (player_names s) = Inr () \<and>
        snd (save_all storage_save s force) = s\<lparr>dirty := False\<rparr>)
   \<and> (fst (save_all storage_save s force) = SaveFailed e \<longrightarrow>
        storage_save (parties s) (player_names s) = Inl e \<and>
        snd (save_all storage_save s force) = s)"
  by (auto simp: save_all_def split: sum.splits)

theorem save_all_dirty_gate_witness:
  "fst (save_all (\<lambda>ps ns. Inl ValueError) alice_party False) = SaveFailed ValueError
   \<and> dirty (snd (save_all (\<lambda>ps ns. Inl ValueError) alice_party False))
   \<and> fst (save_all (\<lambda>ps ns. Inr ()) alice_party False) = Saved
   \<and> \<not> dirty (snd (save_all (\<lambda>ps ns. Inr ()) alice_party False))
   \<and> fst (save_all (\<lambda>ps ns. Inr ()) (empty_registry :: nat registry) False) = NoIO"
  using save_all_dirty_gate [of "\<lambda>ps ns. Inl ValueError" alice_party False ValueError]
    save_all_dirty_gate [of "\<lambda>ps ns. Inr ()" alice_party False ValueError]
    save_all_dirty_gate [of "\<lambda>ps ns. Inr ()" "empty_registry :: nat registry" False ValueError]
  by (simp add: save_all_def instance_defs registry_defs party_defs Let_def)

section \<open>The lifetime of an invite\<close>

text \<open>
  C4, as the claim states it, fails: Bob, invited at time 1000 with a lifetime of 300000,
  is accepted at time 1000 + 300000.
\<close>

theorem invite_accepted_at_ttl:
  "invites (the (parties invited_at_1000 100)) 2 = Some 1000
   \<and> invite_expiration_ms cfg0 = 300000
   \<and> fst (accept_invite cfg0 (1000 + 300000) invited_at_1000 bob 100) = True"
  by (simp add: instance_defs registry_defs party_defs Let_def)

text \<open>
  C4, amended. With a lifetime \<open>T\<close>, an invite recorded at time \<open>t\<close> is accepted at
  \<open>now\<close>, all other preconditions holding, exactly when \<open>now - t \<le> T\<close>: it is accepted at
  \<open>t + T - 1\<close> and at \<open>t + T\<close> and rejected at \<open>t + T + 1\<close>. The sweep removes it under
  the same condition, \<open>now - t > T\<close>.
\<close>

theorem invite_ttl:
  assumes "parties s pid = Some p"
    and "invites p (unique_id pl) = Some t"
    and "int (card (members p)) < max_members cfg"
    and "unique_id pl \<notin> banned_players p"
    and "\<not> is_in_party s (unique_id pl)"
  shows "fst (accept_invite cfg now s pl pid) = (now - t \<le> invite_expiration_ms cfg)
    \<and> fst (accept_invite cfg (t + invite_expiration_ms cfg - 1) s pl pid)
    \<and> fst (accept_invite cfg (t + invite_expiration_ms cfg) s pl pid)
    \<and> \<not> fst (accept_invite cfg (t + invite_expiration_ms cfg + 1) s pl pid)
    \<and> (unique_id pl \<in> fst (clean_expired_invites p (invite_expiration_ms cfg) now))
         = (now - t > invite_expiration_ms cfg)"
  using assms
  by (auto simp: accept_invite_def has_invite_def Let_def clean_expired_invites_def
        swept_def mark_dirty_def)

theorem invite_ttl_witness:
  "parties invited_at_1000 100 = Some (the (parties invited_at_1000 100))
   \<and> invites (the (parties invited_at_1000 100)) (unique_id bob) = Some 1000
   \<and> int (card (members (the (parties invited_at_1000 100)))) < max_members cfg0
   \<and> unique_id bob \<notin> banned_players (the (parties invited_at_1000 100))
   \<and> \<not> is_in_party invited_at_1000 (unique_id bob)
   \<and> fst (accept_invite cfg0 (1000 + invite_expiration_ms cfg0) invited_at_1000 bob 100)
   \<and> \<not> fst (accept_invite cfg0 (1000 + invite_expiration_ms cfg0 + 1) invited_at_1000 bob 100)"
proof -
  have h1: "parties invited_at_1000 100 = Some (the (parties invited_at_1000 100))"
    by (simp add: instance_defs registry_defs party_defs Let_def)
  have h2: "invites (the (parties invited_at_1000 100)) (unique_id bob) = Some 1000"
    by (simp add: instance_defs registry_defs party_defs Let_def)
  have h3: "int (card (members (the (parties invited_at_1000 100)))) < max_members cfg0"
    by (simp add: instance_defs registry_defs party_defs Let_def)
  have h4: "unique_id bob \<notin> banned_players (the (parties invited_at_1000 100))"
    by (simp add: instance_defs registry_defs party_defs Let_def)
  have h5: "\<not> is_in_party invited_at_1000 (unique_id bob)"
    by (simp add: instance_defs registry_defs party_defs Let_def)
  from invite_ttl [OF h1 h2 h3 h4 h5, of 0] h1 h2 h3 h4 h5 show ?thesis
    by simp
qed

section \<open>Leaving a party\<close>

lemma trio_facts:
  "parties trio 100 = Some trio_party"
  "members trio_party = {1, 2, 3}"
  "leader trio_party = 1"
  "player_to_party trio 1 = Some 100"
  by (auto simp add: instance_defs registry_defs party_defs Let_def)

lemma duo_facts:
  "parties duo 100 = Some duo_party"
  "party_id duo_party = 100"
  "members duo_party = {1, 2}"
  "player_to_party duo 1 = Some 100"
  "player_to_party duo 2 = Some 100"
  by (auto simp add: instance_defs registry_defs party_defs Let_def)

text \<open>
  C6. A leave that empties the member set removes the party from \<open>parties\<close>, the
  leaving player from \<open>player_to_party\<close> and every entry for the party from
  \<open>player_invites\<close>, and elects nobody. After both members of a two-member party have
  left, one after the other, the party is in none of the three.
\<close>

theorem leave_disbands_on_empty:
  "(player_to_party s u = Some pid \<and> parties s pid = Some p \<and> party_id p = pid
      \<and> members p \<subseteq> {u} \<longrightarrow>
      (let s' = snd (leave_party L online s u)
       in parties s' pid = None \<and> player_to_party s' u = None
          \<and> (\<forall>i. player_invites s' i \<noteq> Some pid)
          \<and> snd (fst (leave_party L online s u)) = None))
   \<and> (parties s pid = Some p \<and> party_id p = pid \<and> members p = {a, b}
      \<and> player_to_party s a = Some pid \<and> player_to_party s b = Some pid \<longrightarrow>
      (let s1 = snd (leave_party L online s a);
           s2 = snd (leave_party L online' s1 b)
       in parties s2 pid = None \<and> player_to_party s2 a = None
          \<and> player_to_party s2 b = None
          \<and> (\<forall>i. player_invites s2 i \<noteq> Some pid)))"
  apply (intro conjI impI)
  subgoal
    by (auto simp: leave_party_def Let_def remove_member_def disband_party_def mark_dirty_def)
  subgoal
    apply (cases "a = b")
    apply (auto simp: leave_party_def Let_def remove_member_def disband_party_def mark_dirty_def transfer_leadership_def split: option.splits if_splits)
    done
  done

theorem leave_disbands_on_empty_witness:
  "parties duo 100 = Some duo_party
   \<and> party_id duo_party = 100
   \<and> members duo_party = {1, 2}
   \<and> player_to_party duo 1 = Some 100 \<and> player_to_party duo 2 = Some 100
   \<and> parties (snd (leave_party nat_lib (\<lambda>u. True)
          (snd (leave_party nat_lib (\<lambda>u. True) duo 1)) 2)) 100 = None
   \<and> player_to_party (snd (leave_party nat_lib (\<lambda>u. True)
          (snd (leave_party nat_lib (\<lambda>u. True) duo 1)) 2)) 2 = None"
proof -
  have "parties duo 100 = Some duo_party \<and> party_id duo_party = 100 \<and> members duo_party = {1, 2}
      \<and> player_to_party duo 1 = Some 100 \<and> player_to_party duo 2 = Some 100"
    using duo_facts by blast
  with leave_disbands_on_empty
    [of duo 1 100 duo_party nat_lib "\<lambda>u. True" 1 2 "\<lambda>u. True"]
  show ?thesis
    by (simp only: Let_def)
qed


lemma pick_new_leader_some:
  assumes "set (set_iter L (members p)) = members p" and "members p \<noteq> {}"
  shows "\<exists>n. pick_new_leader L online p = Some n \<and> n \<in> members p
     \<and> ((\<exists>m\<in>members p. online m) \<longrightarrow> online n)
     \<and> ((\<forall>m\<in>members p. \<not> online m) \<longrightarrow> (\<forall>m\<in>members p. uuid_str L n \<le> uuid_str L m))"
proof (cases "List.find online (set_iter L (members p))")
  case (Some n)
  then have "n \<in> set (set_iter L (members p))" and "online n"
    by (auto simp: find_Some_iff)
  with Some assms show ?thesis
    by (auto simp: pick_new_leader_def)
next
  case None
  then have off: "\<forall>m\<in>members p. \<not> online m"
    using assms(1) by (auto simp: find_None_iff)
  let ?ys = "sort_key (uuid_str L) (set_iter L (members p))"
  have ne: "?ys \<noteq> []"
    using assms by (metis set_empty set_sort)
  then obtain y ys where ys: "?ys = y # ys"
    by (cases ?ys) auto
  have srt: "sorted (map (uuid_str L) ?ys)"
    by (rule sorted_sort_key)
  have st: "set ?ys = members p"
    using assms(1) by simp
  have "y \<in> members p"
    using st ys by auto
  moreover have "\<forall>m\<in>members p. uuid_str L y \<le> uuid_str L m"
    using srt st ys by auto
  ultimately show ?thesis
    using None ys off by (auto simp: pick_new_leader_def)
qed

text \<open>
  C5. When the leader of a party leaves and members remain, the new leader is one of
  them: an online one if any of them is online, else one whose \<open>str\<close> is the least.
  With members \<open>a, b, c\<close>, \<open>a\<close> leaving, \<open>b\<close> offline and \<open>c\<close> online, it is \<open>c\<close>.
  The iteration of the set is taken to enumerate the set.
\<close>

theorem leader_election:
  assumes "player_to_party s a = Some pid"
    and "parties s pid = Some p"
    and "leader p = a"
    and "members p - {a} \<noteq> {}"
    and "set (set_iter L (members p - {a})) = members p - {a}"
  shows "\<exists>n p'. leave_party L online s a
             = ((Some p', Some n), mark_dirty ((mark_dirty (s\<lparr>
                   parties := (parties s)(pid \<mapsto> remove_member p a),
                   player_to_party := (player_to_party s)(a := None),
                   last_marker_positions := (last_marker_positions s)(a := None)\<rparr>))
                   \<lparr>parties := (parties s)(pid \<mapsto> p')\<rparr>))
     \<and> leader p' = n \<and> members p' = members p - {a} \<and> n \<in> members p - {a}
     \<and> ((\<exists>m\<in>members p - {a}. online m) \<longrightarrow> online n)
     \<and> ((\<forall>m\<in>members p - {a}. \<not> online m) \<longrightarrow>
          (\<forall>m\<in>members p - {a}. uuid_str L n \<le> uuid_str L m))
     \<and> (\<forall>b c. members p = {a, b, c} \<and> c \<noteq> a \<and> \<not> online b \<and> online c \<longrightarrow> n = c)"
proof -
  let ?p1 = "remove_member p a"
  have m1: "members ?p1 = members p - {a}"
    by (simp add: remove_member_def)
  from pick_new_leader_some [of L ?p1 online] assms(4,5) m1
  obtain n where n: "pick_new_leader L online ?p1 = Some n" "n \<in> members p - {a}"
      "(\<exists>m\<in>members p - {a}. online m) \<longrightarrow> online n"
      "(\<forall>m\<in>members p - {a}. \<not> online m) \<longrightarrow> (\<forall>m\<in>members p - {a}. uuid_str L n \<le> uuid_str L m)"
    by auto
  let ?p2 = "snd (transfer_leadership ?p1 n)"
  have l2: "leader ?p2 = n" "members ?p2 = members p - {a}"
    using n(2) m1 by (auto simp: transfer_leadership_def Let_def)
  have abc: "\<forall>b c. members p = {a, b, c} \<and> c \<noteq> a \<and> \<not> online b \<and> online c \<longrightarrow> n = c"
    using n(2,3) by auto
  have "leave_party L online s a
             = ((Some ?p2, Some n), mark_dirty ((mark_dirty (s\<lparr>
                   parties := (parties s)(pid \<mapsto> remove_member p a),
                   player_to_party := (player_to_party s)(a := None),
                   last_marker_positions := (last_marker_positions s)(a := None)\<rparr>))
                   \<lparr>parties := (parties s)(pid \<mapsto> ?p2)\<rparr>))"
    using assms(1,2,3,4) n(1) m1
    by (simp add: leave_party_def Let_def is_leader_def mark_dirty_def)
  with l2 n(2,3,4) abc show ?thesis
    by blast
qed

theorem leader_election_witness:
  "player_to_party trio (1::nat) = Some 100
   \<and> parties trio 100 = Some trio_party
   \<and> leader trio_party = 1
   \<and> members trio_party - {1} \<noteq> {}
   \<and> set (set_iter nat_lib (members trio_party - {1})) = members trio_party - {1}
   \<and> snd (fst (leave_party nat_lib (\<lambda>u. u = 3) trio 1)) = Some 3
   \<and> snd (fst (leave_party nat_lib (\<lambda>u. False) trio 1)) = Some 2"
proof -
  have m: "members trio_party - {1} = {2, 3}"
    by (auto simp add: trio_facts)
  have h4: "members trio_party - {1} \<noteq> {}"
    unfolding m by simp
  have h5: "set (set_iter nat_lib (members trio_party - {1})) = members trio_party - {1}"
    unfolding m by (simp add: nat_lib_def)
  from leader_election [OF trio_facts(4) trio_facts(1) trio_facts(3) h4 h5, of "\<lambda>u. u = 3"]
  obtain n p' st where "leave_party nat_lib (\<lambda>u. u = 3) trio 1 = ((Some p', Some n), st)"
      and "n \<in> members trio_party - {1}"
      and "(\<exists>k\<in>members trio_party - {1}. k = 3) \<longrightarrow> n = 3"
    by blast
  then have a: "snd (fst (leave_party nat_lib (\<lambda>u. u = 3) trio 1)) = Some 3"
    unfolding m by simp
  have lt: "\<not> uuid_str nat_lib 3 \<le> uuid_str nat_lib 2"
    by (simp add: nat_lib_def eval_nat_numeral)
  from leader_election [OF trio_facts(4) trio_facts(1) trio_facts(3) h4 h5, of "\<lambda>u. False"]
  obtain k q st' where k: "leave_party nat_lib (\<lambda>u. False) trio 1 = ((Some q, Some k), st')"
      "k \<in> members trio_party - {1}"
      "(\<forall>j\<in>members trio_party - {1}. \<not> False) \<longrightarrow>
         (\<forall>j\<in>members trio_party - {1}. uuid_str nat_lib k \<le> uuid_str nat_lib j)"
    by blast
  from k(2,3) lt have "k = 2"
    unfolding m by blast
  with k(1) have b: "snd (fst (leave_party nat_lib (\<lambda>u. False) trio 1)) = Some 2"
    by simp
  from a b h4 h5 trio_facts show ?thesis
    by blast
qed

section \<open>Rejected operations\<close>

lemma sweep_nothing: "swept m c = {} \<Longrightarrow> sweep m c = m"
  by (rule ext) (auto simp: swept_def sweep_def split: option.splits)

text \<open>
  C3, as the claim states it, fails: Bob's invite of time 1000 has expired at time
  400000; \<open>accept_invite\<close> rejects, and the invite has left the party and
  \<open>player_invites\<close>.
\<close>

theorem expired_accept_mutates:
  "\<not> fst (accept_invite cfg0 400000 invited_at_1000 bob 100)
   \<and> player_invites invited_at_1000 2 = Some 100
   \<and> player_invites (snd (accept_invite cfg0 400000 invited_at_1000 bob 100)) 2 = None
   \<and> snd (accept_invite cfg0 400000 invited_at_1000 bob 100) \<noteq> invited_at_1000"
proof -
  have a: "\<not> fst (accept_invite cfg0 400000 invited_at_1000 bob 100)"
    by (simp add: instance_defs registry_defs party_defs Let_def)
  have b: "player_invites invited_at_1000 2 = Some 100"
    by (simp add: instance_defs registry_defs party_defs Let_def)
  have c: "player_invites (snd (accept_invite cfg0 400000 invited_at_1000 bob 100)) 2 = None"
    by (simp add: instance_defs registry_defs party_defs Let_def)
  from b c have "snd (accept_invite cfg0 400000 invited_at_1000 bob 100) \<noteq> invited_at_1000"
    by auto
  with a b c show ?thesis by blast
qed

text \<open>
  C3, amended. An operation that rejects leaves the registry as it was, with three
  exceptions: \<open>accept_invite\<close> on an expired invite removes the invite from the party
  and from \<open>player_invites\<close> and sets the dirty flag; \<open>invite_player\<close> rejects after
  its sweep, so the expired invites of the party are gone; \<open>accept_join_request\<close>
  removes the join request and sets the dirty flag before the add is tried, so a rejected
  add leaves the request removed.
\<close>

theorem rejection_leaves_state:
  "(fst (create_party s pl new_id now) = None \<longrightarrow> snd (create_party s pl new_id now) = s)
   \<and> (\<not> fst (disband_party s pid) \<longrightarrow> snd (disband_party s pid) = s)
   \<and> (fst (fst (leave_party L online s u)) = None \<longrightarrow> snd (leave_party L online s u) = s)
   \<and> (\<not> fst (kick_player s pid u) \<longrightarrow> snd (kick_player s pid u) = s)
   \<and> (\<not> fst (add_player_to_party cfg s pl pid) \<longrightarrow> snd (add_player_to_party cfg s pl pid) = s)
   \<and> (\<not> fst (request_to_join now s u pid) \<longrightarrow> snd (request_to_join now s u pid) = s)
   \<and> (\<not> fst (accept_invite cfg now s pl pid) \<longrightarrow>
        snd (accept_invite cfg now s pl pid) = s
        \<or> (\<exists>p t. parties s pid = Some p \<and> invites p (unique_id pl) = Some t
              \<and> now - t > invite_expiration_ms cfg
              \<and> snd (accept_invite cfg now s pl pid)
                  = s\<lparr>parties := (parties s)(pid \<mapsto> remove_invite p (unique_id pl)),
                       player_invites := (player_invites s)(unique_id pl := None),
                       dirty := True\<rparr>))
   \<and> (\<not> fst (invite_player cfg now s pid u) \<longrightarrow>
        snd (invite_player cfg now s pid u) = s
        \<or> (\<exists>p. parties s pid = Some p
              \<and> swept (invites p) (now - invite_expiration_ms cfg) \<noteq> {}
              \<and> snd (invite_player cfg now s pid u)
                  = s\<lparr>parties := (parties s)(pid \<mapsto>
                         snd (clean_expired_invites p (invite_expiration_ms cfg) now)),
                       player_invites :=
                         (\<lambda>i. if i \<in> fst (clean_expired_invites p (invite_expiration_ms cfg) now)
                                   \<and> player_invites s i = Some (party_id p)
                              then None else player_invites s i)\<rparr>))
   \<and> (\<not> fst (accept_join_request cfg s pid pl) \<longrightarrow>
        snd (accept_join_request cfg s pid pl) = s
        \<or> (\<exists>p. parties s pid = Some p \<and> has_join_request p (unique_id pl)
              \<and> snd (accept_join_request cfg s pid pl)
                  = s\<lparr>parties := (parties s)(pid \<mapsto> remove_join_request p (unique_id pl)),
                       dirty := True\<rparr>))"
proof (intro conjI impI)
  show "snd (create_party s pl new_id now) = s" if "fst (create_party s pl new_id now) = None"
    using that by (auto simp: create_party_def Let_def split: if_splits)
  show "snd (disband_party s pid) = s" if "\<not> fst (disband_party s pid)"
    using that by (auto simp: disband_party_def split: option.splits)
  show "snd (leave_party L online s u) = s" if "fst (fst (leave_party L online s u)) = None"
    using that by (auto simp: leave_party_def Let_def split: option.splits if_splits)
  show "snd (kick_player s pid u) = s" if "\<not> fst (kick_player s pid u)"
    using that by (auto simp: kick_player_def Let_def split: option.splits if_splits)
  show "snd (add_player_to_party cfg s pl pid) = s" if "\<not> fst (add_player_to_party cfg s pl pid)"
    using that by (auto simp: add_player_to_party_def Let_def split: option.splits if_splits)
  show "snd (request_to_join now s u pid) = s" if "\<not> fst (request_to_join now s u pid)"
    using that by (auto simp: request_to_join_def Let_def split: option.splits if_splits)
  show "snd (accept_invite cfg now s pl pid) = s
        \<or> (\<exists>p t. parties s pid = Some p \<and> invites p (unique_id pl) = Some t
              \<and> now - t > invite_expiration_ms cfg
              \<and> snd (accept_invite cfg now s pl pid)
                  = s\<lparr>parties := (parties s)(pid \<mapsto> remove_invite p (unique_id pl)),
                       player_invites := (player_invites s)(unique_id pl := None),
                       dirty := True\<rparr>)" if "\<not> fst (accept_invite cfg now s pl pid)"
    using that
    by (auto simp: accept_invite_def Let_def has_invite_def mark_dirty_def
             split: option.splits if_splits)
  show "snd (invite_player cfg now s pid u) = s
        \<or> (\<exists>p. parties s pid = Some p
              \<and> swept (invites p) (now - invite_expiration_ms cfg) \<noteq> {}
              \<and> snd (invite_player cfg now s pid u)
                  = s\<lparr>parties := (parties s)(pid \<mapsto>
                         snd (clean_expired_invites p (invite_expiration_ms cfg) now)),
                       player_invites :=
                         (\<lambda>i. if i \<in> fst (clean_expired_invites p (invite_expiration_ms cfg) now)
                                   \<and> player_invites s i = Some (party_id p)
                              then None else player_invites s i)\<rparr>)"
    if rej: "\<not> fst (invite_player cfg now s pid u)"
  proof (cases "parties s pid")
    case None
    then show ?thesis by (simp add: invite_player_def)
  next
    case (Some p)
    let ?c = "now - invite_expiration_ms cfg"
    have st: "snd (invite_player cfg now s pid u)
        = s\<lparr>parties := (parties s)(pid \<mapsto> snd (clean_expired_invites p (invite_expiration_ms cfg) now)),
             player_invites :=
               (\<lambda>i. if i \<in> fst (clean_expired_invites p (invite_expiration_ms cfg) now)
                         \<and> player_invites s i = Some (party_id p)
                    then None else player_invites s i)\<rparr>"
      using rej Some
      by (auto simp: invite_player_def Let_def clean_expired_invites_def split: if_splits)
    show ?thesis
    proof (cases "swept (invites p) ?c = {}")
      case True
      then have "sweep (invites p) ?c = invites p" by (rule sweep_nothing)
      with True Some st have "snd (invite_player cfg now s pid u) = s"
        by (simp add: clean_expired_invites_def Let_def map_upd_triv)
      then show ?thesis ..
    next
      case False
      with Some st show ?thesis by blast
    qed
  qed
  show "snd (accept_join_request cfg s pid pl) = s
        \<or> (\<exists>p. parties s pid = Some p \<and> has_join_request p (unique_id pl)
              \<and> snd (accept_join_request cfg s pid pl)
                  = s\<lparr>parties := (parties s)(pid \<mapsto> remove_join_request p (unique_id pl)),
                       dirty := True\<rparr>)" if "\<not> fst (accept_join_request cfg s pid pl)"
    using that
    by (auto simp: accept_join_request_def add_player_to_party_def Let_def mark_dirty_def
             split: option.splits if_splits)
qed


theorem rejection_leaves_state_witness:
  "\<not> fst (accept_invite cfg0 400000 invited_at_1000 bob 100)
   \<and> \<not> fst (kick_player alice_party 100 2)
   \<and> snd (kick_player alice_party 100 2) = alice_party
   \<and> (snd (accept_invite cfg0 400000 invited_at_1000 bob 100) = invited_at_1000
      \<or> (\<exists>p t. parties invited_at_1000 100 = Some p \<and> invites p (unique_id bob) = Some t
            \<and> 400000 - t > invite_expiration_ms cfg0
            \<and> snd (accept_invite cfg0 400000 invited_at_1000 bob 100)
                = invited_at_1000\<lparr>
                    parties := (parties invited_at_1000)(100 \<mapsto> remove_invite p (unique_id bob)),
                    player_invites := (player_invites invited_at_1000)(unique_id bob := None),
                    dirty := True\<rparr>))"
proof -
  have a: "\<not> fst (accept_invite cfg0 400000 invited_at_1000 bob 100)"
    by (simp add: instance_defs registry_defs party_defs Let_def)
  have b: "\<not> fst (kick_player alice_party 100 2)"
    by (simp add: instance_defs registry_defs party_defs Let_def)
  note k = rejection_leaves_state
    [where s = alice_party and pid = 100 and u = 2,
      THEN conjunct2, THEN conjunct2, THEN conjunct2, THEN conjunct1, THEN mp, OF b]
  note e = rejection_leaves_state
    [where s = invited_at_1000 and pl = bob and pid = 100 and now = 400000 and cfg = cfg0,
      THEN conjunct2, THEN conjunct2, THEN conjunct2, THEN conjunct2, THEN conjunct2,
      THEN conjunct2, THEN conjunct1, THEN mp, OF a]
  show ?thesis
    by (intro conjI a b k e)
qed

section \<open>The invariants of a party\<close>

text \<open>
  C1, as the claim states it, fails: the registry lets Alice invite herself to her own
  party, and she is then a member with an invite.
\<close>

theorem leader_invites_self:
  "(\<exists>p. parties self_invited 100 = Some p \<and> 1 \<in> members p \<and> invites p 1 = Some 1000)
   \<and> \<not> registry_inv self_invited"
proof -
  have a: "\<exists>p. parties self_invited 100 = Some p \<and> 1 \<in> members p \<and> invites p 1 = Some 1000"
    by (simp add: self_invited_def instance_defs registry_defs party_defs Let_def)
  then obtain p where p: "parties self_invited 100 = Some p" "1 \<in> members p"
      "invites p 1 = Some 1000"
    by blast
  have "\<not> registry_inv self_invited"
  proof
    assume "registry_inv self_invited"
    with p(1) have "party_inv p"
      by (simp add: registry_inv_def)
    then have "members p \<inter> dom (invites p) = {}"
      by (simp add: party_inv_def)
    with p(2,3) show False
      by auto
  qed
  with a show ?thesis
    by blast
qed

text \<open>
  After the leader has left a party in which members remain, \<open>transfer_leadership\<close>
  has written a role for the departed leader, who is no member: in the scenario, after
  Alice has left, Bob leads and Alice is recorded as officer.
\<close>

lemma stale_role_after_leader_leaves:
  "\<exists>p. parties leader_left 100 = Some p
      \<and> members p = {2} \<and> leader p = 2 \<and> roles p 1 = Some OFFICER"
  by (simp add: leader_left_def scenario_def instance_defs registry_defs party_defs Let_def
        leave_party_def pick_new_leader_def nat_lib_def insert_Diff_if)

text \<open>Each mutator of a party keeps \<open>party_ok\<close>.\<close>

lemma party_ok_add_member:
  "party_ok p \<Longrightarrow> u \<notin> banned_players p \<Longrightarrow> party_ok (add_member p u)"
  by (auto simp: party_ok_def add_member_def split: option.splits)

lemma party_ok_remove_member:
  "party_ok p \<Longrightarrow> u \<noteq> leader p \<Longrightarrow> party_ok (remove_member p u)"
  by (auto simp: party_ok_def remove_member_def)

lemma party_ok_ban_player:
  "party_ok p \<Longrightarrow> u \<noteq> leader p \<Longrightarrow> party_ok (ban_player p u)"
  by (auto simp: party_ok_def ban_player_def remove_member_def)

lemma party_ok_create: "party_ok (create new_id u now)"
  by (simp add: party_ok_def create_def new_party_def)

lemma party_ok_sweep:
  "party_ok p \<Longrightarrow> party_ok (snd (clean_expired_invites p e now))"
  by (auto simp: party_ok_def clean_expired_invites_def sweep_def Let_def split: option.splits if_splits)

lemma party_ok_invite:
  "party_ok p \<Longrightarrow> u \<notin> members p \<Longrightarrow> party_ok (party_invite_player p u now)"
  by (auto simp: party_ok_def party_invite_player_def)

lemma party_ok_remove_invite:
  "party_ok p \<Longrightarrow> party_ok (remove_invite p u)"
  by (auto simp: party_ok_def remove_invite_def)

lemma party_ok_add_join_request:
  "party_ok p \<Longrightarrow> u \<notin> members p \<Longrightarrow> party_ok (add_join_request p u now)"
  by (auto simp: party_ok_def add_join_request_def)

lemma party_ok_remove_join_request:
  "party_ok p \<Longrightarrow> party_ok (remove_join_request p u)"
  by (auto simp: party_ok_def remove_join_request_def)

lemma party_ok_transfer:
  "party_ok p \<Longrightarrow> party_ok (snd (transfer_leadership p n))"
  by (auto simp: party_ok_def transfer_leadership_def Let_def)

lemma party_id_simps [simp]:
  "party_id (add_member p u) = party_id p"
  "party_id (remove_member p u) = party_id p"
  "party_id (ban_player p u) = party_id p"
  "party_id (create new_id u now) = new_id"
  "party_id (snd (clean_expired_invites p e now)) = party_id p"
  "party_id (party_invite_player p u now) = party_id p"
  "party_id (remove_invite p u) = party_id p"
  "party_id (add_join_request p u now) = party_id p"
  "party_id (remove_join_request p u) = party_id p"
  "party_id (snd (transfer_leadership p n)) = party_id p"
  by (simp_all add: party_defs Let_def)

lemma registry_okI:
  "(\<And>k p. parties s k = Some p \<Longrightarrow> party_id p = k \<and> party_ok p) \<Longrightarrow> registry_ok s"
  by (simp add: registry_ok_def)

lemma registry_okD:
  "registry_ok s \<Longrightarrow> parties s k = Some p \<Longrightarrow> party_id p = k \<and> party_ok p"
  by (simp add: registry_ok_def)

lemma registry_ok_upd:
  "registry_ok s \<Longrightarrow> party_ok p \<Longrightarrow> party_id p = k \<Longrightarrow> parties s' = (parties s)(k \<mapsto> p)
     \<Longrightarrow> registry_ok s'"
  by (auto simp: registry_ok_def)

lemma registry_ok_del:
  "registry_ok s \<Longrightarrow> parties s' = (parties s)(k := None) \<Longrightarrow> registry_ok s'"
  by (auto simp: registry_ok_def)

lemma registry_ok_same:
  "registry_ok s \<Longrightarrow> parties s' = parties s \<Longrightarrow> registry_ok s'"
  by (auto simp: registry_ok_def)

lemma registry_ok_record_name [simp]:
  "registry_ok (record_player_name s pl) = registry_ok s"
  by (simp add: registry_ok_def record_player_name_def mark_dirty_def)

lemma registry_ok_mark_dirty [simp]:
  "registry_ok (mark_dirty s) = registry_ok s"
  by (simp add: registry_ok_def mark_dirty_def)

lemma ok_create_party:
  "registry_ok s \<Longrightarrow> registry_ok (snd (create_party s ldr new_id now))"
  by (auto simp: create_party_def Let_def intro!: registry_ok_upd [where s = s] party_ok_create)

lemma ok_disband_party:
  "registry_ok s \<Longrightarrow> registry_ok (snd (disband_party s pid))"
  by (auto simp: disband_party_def split: option.splits intro: registry_ok_del [where s = s])


lemma ok_invite_player:
  assumes "registry_ok s" and "call_ok s (InvitePlayer now pid u)"
  shows "registry_ok (snd (invite_player cfg now s pid u))"
proof (cases "parties s pid")
  case None
  with assms show ?thesis by (simp add: invite_player_def)
next
  case (Some p)
  with assms have p: "party_id p = pid" "party_ok p" "u \<notin> members p"
    by (auto dest: registry_okD)
  let ?p1 = "snd (clean_expired_invites p (invite_expiration_ms cfg) now)"
  have p1: "party_ok ?p1" "party_id ?p1 = pid" "members ?p1 = members p"
    using p by (simp_all add: party_ok_sweep) (simp add: clean_expired_invites_def Let_def)
  then have p2: "party_ok (party_invite_player ?p1 u now)"
    using p(3) by (auto intro: party_ok_invite)
  show ?thesis
    using Some assms(1) p1 p2
    by (auto simp: invite_player_def Let_def split_beta
             intro: registry_ok_upd [where s = s])
qed

lemma ok_accept_invite:
  assumes "registry_ok s"
  shows "registry_ok (snd (accept_invite cfg now s pl pid))"
proof (cases "parties s pid")
  case None
  with assms show ?thesis by (simp add: accept_invite_def)
next
  case (Some p)
  with assms have p: "party_id p = pid" "party_ok p"
    by (auto dest: registry_okD)
  show ?thesis
    using Some assms p
    by (auto simp: accept_invite_def Let_def
             intro: registry_ok_upd [where s = s] party_ok_remove_invite party_ok_add_member)
qed

lemma ok_add_player_to_party:
  assumes "registry_ok s" and "call_ok s (AddPlayerToParty pl pid)"
  shows "registry_ok (snd (add_player_to_party cfg s pl pid))"
proof (cases "parties s pid")
  case None
  with assms show ?thesis by (simp add: add_player_to_party_def)
next
  case (Some p)
  with assms have p: "party_id p = pid" "party_ok p" "unique_id pl \<notin> banned_players p"
    by (auto dest: registry_okD)
  show ?thesis
    using Some assms(1) p
    by (auto simp: add_player_to_party_def Let_def
             intro: registry_ok_upd [where s = s] party_ok_add_member)
qed

lemma ok_request_to_join:
  assumes "registry_ok s" and "call_ok s (RequestToJoin now u pid)"
  shows "registry_ok (snd (request_to_join now s u pid))"
proof (cases "parties s pid")
  case None
  with assms show ?thesis by (simp add: request_to_join_def)
next
  case (Some p)
  with assms have p: "party_id p = pid" "party_ok p" "u \<notin> members p"
    by (auto dest: registry_okD)
  show ?thesis
    using Some assms(1) p
    by (auto simp: request_to_join_def Let_def
             intro: registry_ok_upd [where s = s] party_ok_add_join_request)
qed

lemma ok_accept_join_request:
  assumes "registry_ok s" and "call_ok s (AcceptJoinRequest pid pl)"
  shows "registry_ok (snd (accept_join_request cfg s pid pl))"
proof (cases "parties s pid")
  case None
  with assms show ?thesis by (simp add: accept_join_request_def)
next
  case (Some p)
  with assms have p: "party_id p = pid" "party_ok p" "unique_id pl \<notin> banned_players p"
    by (auto dest: registry_okD)
  let ?s1 = "mark_dirty (s\<lparr>parties := (parties s)(pid \<mapsto> remove_join_request p (unique_id pl))\<rparr>)"
  have s1: "registry_ok ?s1"
    using assms(1) p
    by (auto intro: registry_ok_upd [where s = s] party_ok_remove_join_request)
  have c: "call_ok ?s1 (AddPlayerToParty pl pid)"
    using p(3) by (simp add: mark_dirty_def remove_join_request_def)
  show ?thesis
    using Some assms(1) ok_add_player_to_party [OF s1 c]
    by (auto simp: accept_join_request_def Let_def)
qed

lemma ok_kick_player:
  assumes "registry_ok s" and "call_ok s (KickPlayer pid u)"
  shows "registry_ok (snd (kick_player s pid u))"
proof (cases "parties s pid")
  case None
  with assms show ?thesis by (simp add: kick_player_def)
next
  case (Some p)
  with assms have p: "party_id p = pid" "party_ok p" "u \<noteq> leader p"
    by (auto dest: registry_okD)
  then have ne: "members (remove_member p u) \<noteq> {}"
    by (auto simp: party_ok_def remove_member_def)
  show ?thesis
    using Some assms(1) p ne
    by (auto simp: kick_player_def Let_def
             intro: registry_ok_upd [where s = s] party_ok_remove_member)
qed

lemma ok_party_ban:
  assumes "registry_ok s" and "call_ok s (Ban pid u)"
  shows "registry_ok (party_ban s pid u)"
proof (cases "parties s pid")
  case None
  with assms show ?thesis by (simp add: party_ban_def)
next
  case (Some p)
  with assms have p: "party_id p = pid" "party_ok p" "u \<noteq> leader p"
    by (auto dest: registry_okD)
  show ?thesis
    using Some assms(1) p
    by (auto simp: party_ban_def
             intro: registry_ok_upd [where s = s] party_ok_ban_player)
qed


lemma ok_leave_party:
  assumes "registry_ok s" and "lib_ok L"
  shows "registry_ok (snd (leave_party L online s u))"
proof (cases "player_to_party s u")
  case None
  with assms show ?thesis by (simp add: leave_party_def)
next
  case (Some k)
  note k = this
  show ?thesis
  proof (cases "parties s k")
    case None
    with k assms show ?thesis by (simp add: leave_party_def)
  next
    case (Some p)
    with assms have p: "party_id p = k" "party_ok p"
      by (auto dest: registry_okD)
    let ?p1 = "remove_member p u"
    let ?s1 = "mark_dirty (s\<lparr>
                 parties := (parties s)(k \<mapsto> ?p1),
                 player_to_party := (player_to_party s)(u := None),
                 last_marker_positions := (last_marker_positions s)(u := None)\<rparr>)"
    have m1: "members ?p1 = members p - {u}"
      by (simp add: remove_member_def)
    consider (empty) "members ?p1 = {}"
      | (lead) "members ?p1 \<noteq> {}" "leader p = u"
      | (other) "members ?p1 \<noteq> {}" "leader p \<noteq> u"
      by blast
    then show ?thesis
    proof cases
      case empty
      then have "snd (leave_party L online s u) = snd (disband_party ?s1 k)"
        using k Some p by (simp add: leave_party_def Let_def)
      moreover have "parties (snd (disband_party ?s1 k)) = (parties s)(k := None)"
        by (simp add: disband_party_def mark_dirty_def)
      ultimately show ?thesis
        using assms(1) by (auto intro: registry_ok_del [where s = s])
    next
      case lead
      have fin: "finite (members ?p1)"
        using p(2) by (simp add: party_ok_def m1)
      with assms(2) have "set (set_iter L (members ?p1)) = members ?p1"
        by (simp add: lib_ok_def)
      from pick_new_leader_some [OF this lead(1), of online]
      obtain n where n: "pick_new_leader L online ?p1 = Some n" "n \<in> members ?p1"
        by blast
      let ?p2 = "snd (transfer_leadership ?p1 n)"
      have ok2: "party_ok ?p2"
        using p(2) n(2)
        by (auto simp: party_ok_def transfer_leadership_def remove_member_def Let_def)
      have "parties (snd (leave_party L online s u)) = (parties s)(k \<mapsto> ?p2)"
        using k Some lead n(1)
        by (simp add: leave_party_def Let_def is_leader_def mark_dirty_def)
      with assms(1) ok2 p(1) show ?thesis
        by (auto intro: registry_ok_upd [where s = s])
    next
      case other
      then have ok1: "party_ok ?p1"
        using p(2) by (auto intro: party_ok_remove_member)
      have "parties (snd (leave_party L online s u)) = (parties s)(k \<mapsto> ?p1)"
        using k Some other
        by (simp add: leave_party_def Let_def is_leader_def mark_dirty_def)
      with assms(1) ok1 p(1) show ?thesis
        by (auto intro: registry_ok_upd [where s = s])
    qed
  qed
qed

lemma ok_apply_call:
  "registry_ok s \<Longrightarrow> lib_ok L \<Longrightarrow> call_ok s c \<Longrightarrow> registry_ok (apply_call L cfg s c)"
  by (cases c)
     (simp_all add: ok_create_party ok_disband_party ok_invite_player ok_accept_invite
        ok_leave_party ok_kick_player ok_add_player_to_party ok_request_to_join
        ok_accept_join_request ok_party_ban)

lemma ok_run:
  "registry_ok s \<Longrightarrow> lib_ok L \<Longrightarrow> calls_ok L cfg s cs \<Longrightarrow> registry_ok (run L cfg s cs)"
  by (induction cs arbitrary: s) (auto intro: ok_apply_call)

lemma calls_ok_take:
  "calls_ok L cfg s cs \<Longrightarrow> calls_ok L cfg s (take n cs)"
proof (induction cs arbitrary: s n)
  case Nil
  then show ?case by simp
next
  case (Cons c cs)
  then show ?case by (cases n) auto
qed

lemma lib_ok_nat_lib: "lib_ok nat_lib"
  by (simp add: lib_ok_def nat_lib_def)

lemma registry_ok_empty: "registry_ok empty_registry"
  by (simp add: registry_ok_def empty_registry_def)

text \<open>
  C1, amended. In a sequence of operations whose arguments satisfy what the command
  handlers check before they call, started from a registry in which every party is well
  formed, after each call every party held has its leader among its members, the role
  \<open>LEADER\<close> for its leader, members disjoint from invites, join requests and banned
  players, and a member set that is not empty.
\<close>

theorem invariants_preserved:
  assumes "lib_ok L" and "registry_ok s" and "calls_ok L cfg s cs"
  shows "\<forall>n. \<forall>k p. parties (run L cfg s (take n cs)) k = Some p \<longrightarrow>
           leader p \<in> members p
           \<and> roles p (leader p) = Some LEADER
           \<and> members p \<inter> dom (invites p) = {}
           \<and> members p \<inter> dom (join_requests p) = {}
           \<and> members p \<inter> banned_players p = {}
           \<and> members p \<noteq> {}"
proof (intro allI impI)
  fix n k p
  assume h: "parties (run L cfg s (take n cs)) k = Some p"
  have "registry_ok (run L cfg s (take n cs))"
    using assms by (intro ok_run calls_ok_take)
  with h have "party_ok p"
    by (auto dest: registry_okD)
  then show "leader p \<in> members p
           \<and> roles p (leader p) = Some LEADER
           \<and> members p \<inter> dom (invites p) = {}
           \<and> members p \<inter> dom (join_requests p) = {}
           \<and> members p \<inter> banned_players p = {}
           \<and> members p \<noteq> {}"
    by (simp add: party_ok_def)
qed


theorem invariants_preserved_witness:
  "lib_ok nat_lib \<and> registry_ok (empty_registry :: nat registry)
   \<and> calls_ok nat_lib cfg0 empty_registry scenario
   \<and> parties (run nat_lib cfg0 empty_registry (take 4 scenario)) 100
        = Some (the (parties leader_left 100))
   \<and> leader (the (parties leader_left 100)) \<in> members (the (parties leader_left 100))
   \<and> roles (the (parties leader_left 100)) (leader (the (parties leader_left 100)))
        = Some LEADER
   \<and> members (the (parties leader_left 100)) \<noteq> {}"
proof -
  have c: "calls_ok nat_lib cfg0 empty_registry scenario"
    by (simp add: scenario_def instance_defs registry_defs party_defs Let_def)
  have h: "parties (run nat_lib cfg0 empty_registry (take 4 scenario)) 100
        = Some (the (parties leader_left 100))"
    using stale_role_after_leader_leaves by (auto simp: leader_left_def)
  from invariants_preserved [OF lib_ok_nat_lib registry_ok_empty c, rule_format, OF h]
    lib_ok_nat_lib registry_ok_empty c h
  show ?thesis
    by blast
qed

section \<open>Decoding a snapshot\<close>

lemma bind_Inr_iff: "bind m f = Inr y \<longleftrightarrow> (\<exists>x. m = Inr x \<and> f x = Inr y)"
  by (cases m) (simp_all add: bind_def)

text \<open>
  C10. Whenever \<open>from_dict\<close> returns a party, its leader is a member, the role of the
  leader is \<open>LEADER\<close> and every role belongs to a member, whatever the snapshot said;
  the id and the leader are the ones the snapshot names.
\<close>

theorem from_dict_repairs:
  assumes "from_dict L now data = Inr (Some p)"
  shows "leader p \<in> members p \<and> roles p (leader p) = Some LEADER
    \<and> dom (roles p) \<subseteq> members p
    \<and> parse_uuid L (dict_get data ''id'' JNull) = Some (party_id p)
    \<and> parse_uuid L (dict_get data ''leader'' JNull) = Some (leader p)"
  using assms
  by (auto simp: from_dict_def bind_Inr_iff Let_def split: option.splits if_splits)

theorem from_dict_repairs_witness:
  "\<exists>p. from_dict nat_lib 0 violating = Inr (Some p)
      \<and> leader p \<in> members p \<and> roles p (leader p) = Some LEADER
      \<and> dom (roles p) \<subseteq> members p"
proof -
  have "\<exists>p. from_dict nat_lib 0 violating = Inr (Some p)"
    by (simp add: violating_def snapshot_defs Let_def)
  then obtain p where p: "from_dict nat_lib 0 violating = Inr (Some p)"
    by blast
  from from_dict_repairs [OF p] p show ?thesis
    by blast
qed

text \<open>
  \<open>from_dict\<close> returns \<open>None\<close> exactly when the id or the leader does not parse; the
  loader then goes on to the next entry, and so it does for an entry that is no dict. An
  entry of a nested dict whose key does not parse is skipped.
\<close>

lemma from_dict_None_iff:
  "from_dict L now data = Inr None \<longleftrightarrow>
     parse_uuid L (dict_get data ''id'' JNull) = None
     \<or> parse_uuid L (dict_get data ''leader'' JNull) = None"
  by (auto simp: from_dict_def bind_Inr_iff Let_def split: option.splits)

lemma load_entries_skips:
  "from_dict L now d = Inr None \<Longrightarrow>
     load_entries L now (JDict d # entries) acc = load_entries L now entries acc"
  by simp

lemma uuid_dict_skips:
  "parse_uuid L raw = None \<Longrightarrow> uuid_dict L f ((raw, v) # items) acc = uuid_dict L f items acc"
  by simp

lemma good_entry_loads: "\<exists>p. from_dict nat_lib 0 good_entry = Inr (Some p)"
  by (simp add: good_entry_def snapshot_defs Let_def)

lemma bad_entry_raises: "from_dict nat_lib 0 bad_entry = Inl TypeError"
  by (simp add: bad_entry_def snapshot_defs Let_def)

text \<open>
  C8. A value of the wrong type is not dropped: \<open>int(None)\<close> raises inside
  \<open>from_dict\<close>, \<open>load\<close> does not catch it, and \<open>load_all\<close> starts with no party at
  all, the well-formed entry of the document included.
\<close>

theorem wrong_typed_value_aborts_load:
  "(\<exists>p. from_dict nat_lib 0 good_entry = Inr (Some p))
   \<and> from_dict nat_lib 0 bad_entry = Inl TypeError
   \<and> load nat_lib 0 (Some document) = Inl TypeError
   \<and> parties (load_all nat_lib (load nat_lib 0 (Some document)) empty_registry) = Map.empty"
proof -
  obtain p where p: "from_dict nat_lib 0 good_entry = Inr (Some p)"
    using good_entry_loads by blast
  have l: "load nat_lib 0 (Some document) = Inl TypeError"
    by (simp add: document_def load_def dict_get_def py_iter_def bind_def p bad_entry_raises)
  have "parties (load_all nat_lib (Inl TypeError) empty_registry) = Map.empty"
    by (simp add: load_all_def rebuild_indexes_def empty_registry_def nat_lib_def Let_def)
  with p l bad_entry_raises show ?thesis
    by auto
qed

section \<open>The round trip of a snapshot\<close>

text \<open>Each part of \<open>to_dict\<close> is read back by the matching part of \<open>from_dict\<close>.\<close>

lemma bind_Inr [simp]: "bind (Inr x) f = f x"
  by (simp add: bind_def)

lemma to_dict_get:
  "dict_get (to_dict L p) ''id'' d = JStr (uuid_str L (party_id p))"
  "dict_get (to_dict L p) ''leader'' d = JStr (uuid_str L (leader p))"
  "dict_get (to_dict L p) ''members'' d = id_list L (members p)"
  "dict_get (to_dict L p) ''invites'' d = int_dict L (invites p)"
  "dict_get (to_dict L p) ''join_requests'' d = int_dict L (join_requests p)"
  "dict_get (to_dict L p) ''home'' d
     = (case home p of Some h \<Rightarrow> JDict (location_to_dict h) | None \<Rightarrow> JNull)"
  "dict_get (to_dict L p) ''created_at'' d = JInt (created_at p)"
  "dict_get (to_dict L p) ''name'' d = name p"
  "dict_get (to_dict L p) ''is_public'' d = JBool (is_public p)"
  "dict_get (to_dict L p) ''roles'' d
     = JDict (map (\<lambda>(player_id, r). (uuid_str L player_id, JStr (role_value r)))
                (dict_items L (roles p)))"
  "dict_get (to_dict L p) ''banned_players'' d = id_list L (banned_players p)"
  "dict_get (to_dict L p) ''total_play_time_ms'' d = JInt (total_play_time_ms p)"
  "dict_get (to_dict L p) ''total_kills'' d = JInt (total_kills p)"
  "dict_get (to_dict L p) ''total_deaths'' d = JInt (total_deaths p)"
  "dict_get (to_dict L p) ''color'' d = JStr (color p)"
  "dict_get (to_dict L p) ''icon'' d = JStr (icon p)"
  "dict_get (to_dict L p) ''allies'' d = id_list L (allies p)"
  "dict_get (to_dict L p) ''last_daily_reward'' d = int_dict L (last_daily_reward p)"
  "dict_get (to_dict L p) ''consecutive_days'' d = JInt (consecutive_days p)"
  "dict_get (to_dict L p) ''last_reward_date'' d = JInt (last_reward_date p)"
  "dict_get (to_dict L p) ''achievements'' d
     = JList (map JStr (sorted_list_of_set (achievements p)))"
  "dict_get (to_dict L p) ''last_seen'' d = int_dict L (last_seen p)"
  by (simp_all add: to_dict_def dict_get_def)

lemma parse_uuid_str:
  "\<forall>u. uuid_ctor L (uuid_str L u) = Some u \<Longrightarrow> parse_uuid L (JStr (uuid_str L u)) = Some u"
  by (simp add: parse_uuid_def py_str_def)

lemma map_filter_parse:
  "\<forall>u. uuid_ctor L (uuid_str L u) = Some u \<Longrightarrow>
     List.map_filter (parse_uuid L) (map (\<lambda>i. JStr (uuid_str L i)) xs) = xs"
  by (induction xs) (simp_all add: List.map_filter_simps parse_uuid_str)

lemma id_set_id_list:
  assumes "\<forall>u. uuid_ctor L (uuid_str L u) = Some u" and "lib_ok L" and "finite A"
  shows "id_set L (id_list L A) = Inr A"
  using assms
  by (simp add: id_set_def id_list_def py_iter_def map_filter_parse lib_ok_def)

lemma role_parse_value: "role_parse (JStr (role_value r)) = Inr r"
  by (cases r)
     (simp_all add: role_parse_def truthy_def strip_def lower_def lower_char_def is_space_def Let_def)

lemma location_round_trip: "location_from_dict L (location_to_dict h) = Inr h"
  by (cases h) (simp add: location_from_dict_def location_to_dict_def dict_get_def py_float_def py_str_def)

lemma uuid_dict_enc:
  assumes "\<forall>u. uuid_ctor L (uuid_str L u) = Some u" and "\<forall>v. f (g v) = Inr v"
  shows "uuid_dict L f (map (\<lambda>(k, v). (JStr (uuid_str L k), g v)) items) acc
           = Inr (fold (\<lambda>(k, v) a. a(k \<mapsto> v)) items acc)"
  using assms
  by (induction items arbitrary: acc) (auto simp: parse_uuid_str)

lemma fold_upd_graph:
  assumes "\<forall>(k, v)\<in>set items. m k = Some v"
  shows "fold (\<lambda>(k, v) a. a(k \<mapsto> v)) items acc
           = (\<lambda>x. if x \<in> fst ` set items then m x else acc x)"
  using assms
proof (induction items arbitrary: acc)
  case Nil
  then show ?case by simp
next
  case (Cons kv items)
  then show ?case by (cases kv) (auto simp: fun_eq_iff)
qed

lemma set_dict_items:
  assumes "lib_ok L" and "finite (dom m)"
  shows "set (dict_items L m) = {(k, v). m k = Some v}"
  using assms
proof -
  have s: "set (set_iter L (dom m)) = dom m"
    using assms by (simp add: lib_ok_def)
  show ?thesis
  proof (intro set_eqI iffI)
    fix kv
    assume "kv \<in> set (dict_items L m)"
    then show "kv \<in> {(k, v). m k = Some v}"
      by (auto simp: dict_items_def List.map_filter_def)
  next
    fix kv
    assume "kv \<in> {(k, v). m k = Some v}"
    then obtain k v where kv: "kv = (k, v)" "m k = Some v"
      by auto
    then have "k \<in> set (set_iter L (dom m))"
      using s by auto
    with kv show "kv \<in> set (dict_items L m)"
      by (force simp: dict_items_def List.map_filter_def image_iff)
  qed
qed

lemma dict_round_trip:
  assumes "\<forall>u. uuid_ctor L (uuid_str L u) = Some u" and "lib_ok L" and "finite (dom m)"
    and "\<forall>v. f (g v) = Inr v"
  shows "uuid_dict L f (map (\<lambda>(k, v). (JStr (uuid_str L k), g v)) (dict_items L m)) Map.empty
           = Inr m"
proof -
  have g: "\<forall>(k, v)\<in>set (dict_items L m). m k = Some v"
    using set_dict_items [OF assms(2,3)] by auto
  have d: "fst ` set (dict_items L m) = dom m"
    using set_dict_items [OF assms(2,3)] by (force simp: dom_def)
  have "fold (\<lambda>(k, v) a. a(k \<mapsto> v)) (dict_items L m) Map.empty = m"
    unfolding fold_upd_graph [OF g] d by (rule ext) (auto simp: domIff)
  with uuid_dict_enc [OF assms(1,4)] show ?thesis
    by simp
qed


lemma int_dict_round_trip:
  assumes "\<forall>u. uuid_ctor L (uuid_str L u) = Some u" and "lib_ok L" and "finite (dom m)"
  shows "dict_comp L (py_int L) (int_dict L m) = Inr m"
proof -
  have e: "(\<lambda>(k, y). (JStr k, y)) \<circ> (\<lambda>(player_id, t). (uuid_str L player_id, JInt t))
      = (\<lambda>(k, v). (JStr (uuid_str L k), JInt v))"
    by (auto simp: fun_eq_iff)
  have f: "\<forall>v. py_int L (JInt v) = Inr v"
    by (simp add: py_int_def)
  show ?thesis
    using dict_round_trip [OF assms f]
    by (simp add: dict_comp_def int_dict_def py_dict_def e)
qed

lemma roles_round_trip:
  assumes "\<forall>u. uuid_ctor L (uuid_str L u) = Some u" and "lib_ok L" and "finite (dom m)"
  shows "dict_comp L role_parse
           (JDict (map (\<lambda>(player_id, r). (uuid_str L player_id, JStr (role_value r)))
                     (dict_items L m))) = Inr m"
proof -
  have e: "(\<lambda>(k, y). (JStr k, y))
               \<circ> (\<lambda>(player_id, r). (uuid_str L player_id, JStr (role_value r)))
      = (\<lambda>(k, v). (JStr (uuid_str L k), JStr (role_value v)))"
    by (auto simp: fun_eq_iff)
  have f: "\<forall>v. role_parse (JStr (role_value v)) = Inr v"
    by (simp add: role_parse_value)
  show ?thesis
    using dict_round_trip [OF assms f]
    by (simp add: dict_comp_def py_dict_def e)
qed

lemma py_str_JStr: "py_str L (JStr s) = s"
  by (simp add: py_str_def)

lemma truthy_JBool: "truthy (JBool b) = b"
  by (simp add: truthy_def)

lemma achievements_round_trip:
  "finite A \<Longrightarrow> set (map (py_str L) (map JStr (sorted_list_of_set A))) = A"
  by (simp add: py_str_def comp_def)

lemma restrict_roles:
  "dom r \<subseteq> M \<Longrightarrow> (\<lambda>u. if u \<in> M then r u else None) = r"
proof (rule ext)
  fix u
  assume d: "dom r \<subseteq> M"
  show "(if u \<in> M then r u else None) = r u"
  proof (cases "r u")
    case None
    then show ?thesis by simp
  next
    case (Some y)
    then have "u \<in> dom r" by auto
    with d have "u \<in> M" by auto
    then show ?thesis by simp
  qed
qed

lemma round_trip_name:
  assumes ctor: "\<forall>u. uuid_ctor L (uuid_str L u) = Some u"
    and iter: "lib_ok L"
    and fin: "finite (members p)" "finite (banned_players p)" "finite (allies p)"
      "finite (achievements p)" "finite (dom (invites p))" "finite (dom (join_requests p))"
      "finite (dom (last_daily_reward p))" "finite (dom (last_seen p))"
    and inv: "leader p \<in> members p" "roles p (leader p) = Some LEADER"
      "dom (roles p) \<subseteq> members p"
  shows "from_dict L now (to_dict L p)
           = Inr (Some (p\<lparr>name := (if truthy (name p) then name p else JNull)\<rparr>))"
proof -
  have fr: "finite (dom (roles p))"
    using fin(1) inv(3) by (rule rev_finite_subset)
  have hm: "(case (case home p of Some h \<Rightarrow> JDict (location_to_dict h) | None \<Rightarrow> JNull) of
               JDict h \<Rightarrow> bind (location_from_dict L h) (\<lambda>loc. Inr (Some loc))
             | _ \<Rightarrow> Inr None) = Inr (home p)"
    by (cases "home p") (simp_all add: location_round_trip)
  have r: "(\<lambda>player_id. if player_id \<in> members p then ((roles p)(leader p \<mapsto> LEADER)) player_id
                        else None) = roles p"
    using inv(2,3) by (simp add: map_upd_triv restrict_roles)
  have r2: "(\<lambda>player_id. if player_id \<in> members p
                         then if player_id = leader p then Some LEADER else roles p player_id
                         else None) = roles p"
  proof (rule ext)
    fix u
    show "(if u \<in> members p then if u = leader p then Some LEADER else roles p u else None)
            = roles p u"
      using inv(2) restrict_roles [OF inv(3), THEN fun_cong, of u]
      by (auto split: if_splits)
  qed
  have a2: "py_str L ` JStr ` achievements p = achievements p"
    by (force simp: py_str_def image_iff)
  show ?thesis
    using inv(1)
    by (simp add: from_dict_def r2 a2 to_dict_get parse_uuid_str [OF ctor]
          id_set_id_list [OF ctor iter] int_dict_round_trip [OF ctor iter]
          roles_round_trip [OF ctor iter] fin fr hm r
          achievements_round_trip py_int_def py_iter_def py_str_JStr truthy_JBool Let_def
        cong: if_cong)
qed

lemma from_dict_roles:
  assumes "from_dict L now data = Inr (Some p)"
  shows "dom (roles p) \<subseteq> members p"
  using assms
  by (auto simp: from_dict_def bind_Inr_iff Let_def split: option.splits if_splits)

lemma nat_lib_ctor: "\<forall>u. uuid_ctor nat_lib (uuid_str nat_lib u) = Some u"
  by (auto simp: nat_lib_def)

lemma unnamed_round_trip:
  "from_dict nat_lib 0 (to_dict nat_lib unnamed) = Inr (Some (unnamed\<lparr>name := JNull\<rparr>))"
proof -
  have "from_dict nat_lib 0 (to_dict nat_lib unnamed)
      = Inr (Some (unnamed\<lparr>name := (if truthy (name unnamed) then name unnamed else JNull)\<rparr>))"
    by (rule round_trip_name [OF nat_lib_ctor lib_ok_nat_lib])
       (simp_all add: unnamed_def party_defs Let_def)
  then show ?thesis
    by (simp add: unnamed_def truthy_def)
qed

text \<open>
  C2, as the claim states it, fails. A party whose name is the empty string comes back
  with no name; and the party of the scenario after its leader has left, which records a
  role for a player who is no member, does not come back as it was.
\<close>

theorem round_trip_fails:
  "name unnamed = JStr []
   \<and> from_dict nat_lib 0 (to_dict nat_lib unnamed) = Inr (Some (unnamed\<lparr>name := JNull\<rparr>))
   \<and> from_dict nat_lib 0 (to_dict nat_lib unnamed) \<noteq> Inr (Some unnamed)
   \<and> from_dict nat_lib 0 (to_dict nat_lib (the (parties leader_left 100)))
        \<noteq> Inr (Some (the (parties leader_left 100)))"
proof -
  have n: "name unnamed = JStr []"
    by (simp add: unnamed_def)
  have u: "unnamed\<lparr>name := JNull\<rparr> \<noteq> unnamed"
  proof
    assume "unnamed\<lparr>name := JNull\<rparr> = unnamed"
    from arg_cong [where f = name, OF this] have "JNull = name unnamed"
      by simp
    with n show False
      by simp
  qed
  obtain q where q: "parties leader_left 100 = Some q" "members q = {2}"
      "roles q 1 = Some OFFICER"
    using stale_role_after_leader_leaves by blast
  have "from_dict nat_lib 0 (to_dict nat_lib q) \<noteq> Inr (Some q)"
  proof
    assume "from_dict nat_lib 0 (to_dict nat_lib q) = Inr (Some q)"
    then have "dom (roles q) \<subseteq> members q"
      by (rule from_dict_roles)
    with q(2,3) show False
      by auto
  qed
  with n u unnamed_round_trip q(1) show ?thesis
    by simp
qed

text \<open>
  C2, amended. For a party whose leader is a member with the role \<open>LEADER\<close>, whose
  roles all belong to members and whose name is \<open>None\<close> or truthy,
  \<open>from_dict (to_dict p)\<close> returns \<open>p\<close>, every field equal. The sets and dicts of a
  party are finite; \<open>UUID(str(u))\<close> is \<open>u\<close>, and an iteration enumerates what it
  iterates.
\<close>

theorem round_trip:
  assumes ctor: "\<forall>u. uuid_ctor L (uuid_str L u) = Some u"
    and iter: "lib_ok L"
    and fin: "finite (members p)" "finite (banned_players p)" "finite (allies p)"
      "finite (achievements p)" "finite (dom (invites p))" "finite (dom (join_requests p))"
      "finite (dom (last_daily_reward p))" "finite (dom (last_seen p))"
    and inv: "leader p \<in> members p" "roles p (leader p) = Some LEADER"
      "dom (roles p) \<subseteq> members p"
    and nm: "name p = JNull \<or> truthy (name p)"
  shows "from_dict L now (to_dict L p) = Inr (Some p)"
proof -
  have "(if truthy (name p) then name p else JNull) = name p"
    using nm by auto
  with round_trip_name [OF ctor iter fin inv, of now] show ?thesis
    by simp
qed

theorem round_trip_witness:
  "from_dict nat_lib 0 (to_dict nat_lib duo_party) = Inr (Some duo_party)"
proof -
  have d: "duo_party = add_member (create 100 1 0) 2"
    by (simp add: instance_defs registry_defs party_defs Let_def)
  show ?thesis
    by (rule round_trip [OF nat_lib_ctor lib_ok_nat_lib])
       (simp_all add: d party_defs Let_def truthy_def)
qed

end
